theory Spec2Isabelle
  imports Main "HOL-Library.AList" "HOL-Library.Multiset"
begin

section \<open>JavaScript values\<close>

text \<open>
  A JavaScript \<^verbatim>\<open>Date\<close>: a time value in milliseconds, or the invalid date, whose
  \<^verbatim>\<open>getTime()\<close> is \<^verbatim>\<open>NaN\<close>. A number that can be \<^verbatim>\<open>NaN\<close> is an optional integer.
\<close>

datatype jsdate = DateAt int | InvalidDate

fun getTime :: "jsdate \<Rightarrow> int option" where
  "getTime (DateAt t) = Some t"
| "getTime InvalidDate = None"

text \<open>\<^verbatim>\<open>a - b\<close> on such numbers: \<^verbatim>\<open>NaN\<close> when one of them is.\<close>

fun num_sub :: "int option \<Rightarrow> int option \<Rightarrow> int option" where
  "num_sub (Some a) (Some b) = Some (a - b)"
| "num_sub a b = None"

text \<open>
  The dashboard handles untyped JSON: Firestore documents (\<^verbatim>\<open>Record<string, any>\<close>) and
  REST response bodies. A value is one of the JavaScript values that occur in them. Numbers
  are modelled by integers. A Firestore \<^verbatim>\<open>Timestamp\<close> is modelled by its time value in
  milliseconds; it is the only value with a \<^verbatim>\<open>toDate\<close> property (a map of a document
  with an entry of that name is not among the values considered). An object is an
  association list, in the insertion order of its keys.
\<close>

datatype jsval =
    Undefined
  | Null
  | Bool bool
  | Num int
  | Str string
  | Timestamp int
  | DateV jsdate
  | Arr "jsval list"
  | Obj "(string \<times> jsval) list"

type_synonym jsobj = "(string \<times> jsval) list"

text \<open>Truthiness, as tested by \<^verbatim>\<open>if (v)\<close>, \<^verbatim>\<open>v ? a : b\<close>, \<^verbatim>\<open>!v\<close> and \<^verbatim>\<open>v || w\<close>.\<close>

fun truthy :: "jsval \<Rightarrow> bool" where
  "truthy Undefined = False"
| "truthy Null = False"
| "truthy (Bool b) = b"
| "truthy (Num n) = (n \<noteq> 0)"
| "truthy (Str s) = (s \<noteq> [])"
| "truthy (Timestamp t) = True"
| "truthy (DateV t) = True"
| "truthy (Arr xs) = True"
| "truthy (Obj fs) = True"

text \<open>\<^verbatim>\<open>a || b\<close>\<close>

definition js_or :: "jsval \<Rightarrow> jsval \<Rightarrow> jsval" where
  "js_or a b = (if truthy a then a else b)"

text \<open>\<^verbatim>\<open>v === undefined || v === null\<close>\<close>

definition nullish :: "jsval \<Rightarrow> bool" where
  "nullish v = (v = Undefined \<or> v = Null)"

text \<open>
  \<^verbatim>\<open>o[k]\<close> on a record: the value stored under the key, \<^verbatim>\<open>undefined\<close> when there is none.
\<close>

definition field :: "jsobj \<Rightarrow> string \<Rightarrow> jsval" where
  "field fs k = (case map_of fs k of Some v \<Rightarrow> v | None \<Rightarrow> Undefined)"

text \<open>
  \<^verbatim>\<open>v.k\<close> on a value that is neither \<^verbatim>\<open>null\<close> nor \<^verbatim>\<open>undefined\<close>: a number, a string or
  an array has no own property of the names read here. Reading a property of \<^verbatim>\<open>null\<close> or
  \<^verbatim>\<open>undefined\<close> raises a TypeError: every such read of the code is guarded in the model,
  by \<open>nullish\<close> or by \<open>reading\<close> below.
\<close>

fun prop_of :: "jsval \<Rightarrow> string \<Rightarrow> jsval" where
  "prop_of (Obj fs) k = field fs k"
| "prop_of v k = Undefined"

text \<open>
  Object spread \<^verbatim>\<open>{...acc, ...v}\<close>: the own properties of \<open>v\<close> are written over \<open>acc\<close> in
  their order; spreading \<^verbatim>\<open>null\<close> or \<^verbatim>\<open>undefined\<close> (or any value without own
  enumerable properties) adds nothing.
\<close>

fun own_properties :: "jsval \<Rightarrow> jsobj" where
  "own_properties (Obj fs) = fs"
| "own_properties v = []"

definition assign :: "jsobj \<Rightarrow> jsobj \<Rightarrow> jsobj" where
  "assign acc fs = foldl (\<lambda>a (k, v). AList.update k v a) acc fs"

definition spread :: "jsobj \<Rightarrow> jsval \<Rightarrow> jsobj" where
  "spread acc v = assign acc (own_properties v)"

text \<open>\<^verbatim>\<open>Array.isArray(v)\<close> and the elements of an array.\<close>

fun isArray :: "jsval \<Rightarrow> bool" where
  "isArray (Arr xs) = True"
| "isArray v = False"

fun elements :: "jsval \<Rightarrow> jsval list" where
  "elements (Arr xs) = xs"
| "elements v = []"

text \<open>\<^verbatim>\<open>s.toLowerCase()\<close> on ASCII text.\<close>

definition lower_char :: "char \<Rightarrow> char" where
  "lower_char c =
     (case map_of (zip ''ABCDEFGHIJKLMNOPQRSTUVWXYZ'' ''abcdefghijklmnopqrstuvwxyz'') c of
        Some l \<Rightarrow> l
      | None \<Rightarrow> c)"

definition toLowerCase :: "string \<Rightarrow> string" where
  "toLowerCase s = map lower_char s"

text \<open>An \<^verbatim>\<open>Error\<close> object: its \<^verbatim>\<open>name\<close>, \<^verbatim>\<open>code\<close> (Firestore errors) and \<^verbatim>\<open>message\<close>.\<close>

record js_error =
  err_name :: string
  err_code :: "string option"
  err_message :: string

definition new_Error :: "string \<Rightarrow> js_error" where
  "new_Error msg = \<lparr>err_name = ''Error'', err_code = None, err_message = msg\<rparr>"

definition type_error :: "string \<Rightarrow> js_error" where
  "type_error msg = \<lparr>err_name = ''TypeError'', err_code = None, err_message = msg\<rparr>"

text \<open>
  A computation that can throw gives the error thrown (\<open>Inl\<close>) or its value. The next
  step runs on the value; a loop stops at the first error.
\<close>

definition bind_err :: "(js_error + 'a) \<Rightarrow> ('a \<Rightarrow> js_error + 'b) \<Rightarrow> js_error + 'b" where
  "bind_err m f = (case m of Inl e \<Rightarrow> Inl e | Inr v \<Rightarrow> f v)"

text \<open>\<^verbatim>\<open>xs.forEach(x => ...)\<close> collecting a result for each element, and carrying a state.\<close>

fun mapM_err :: "('a \<Rightarrow> js_error + 'b) \<Rightarrow> 'a list \<Rightarrow> js_error + 'b list" where
  "mapM_err f [] = Inr []"
| "mapM_err f (x # xs) =
     bind_err (f x) (\<lambda>y. bind_err (mapM_err f xs) (\<lambda>ys. Inr (y # ys)))"

fun foldM_err :: "('s \<Rightarrow> 'a \<Rightarrow> js_error + 's) \<Rightarrow> 's \<Rightarrow> 'a list \<Rightarrow> js_error + 's" where
  "foldM_err f s [] = Inr s"
| "foldM_err f s (x # xs) = bind_err (f s x) (\<lambda>s'. foldM_err f s' xs)"

text \<open>
  \<^verbatim>\<open>xs.some(x => ...)\<close>, which stops at the first element that passes, and a
  \<^verbatim>\<open>for (const x of xs) { if (...) { found = x; break } }\<close> loop.
\<close>

fun some_err :: "('a \<Rightarrow> js_error + bool) \<Rightarrow> 'a list \<Rightarrow> js_error + bool" where
  "some_err f [] = Inr False"
| "some_err f (x # xs) = bind_err (f x) (\<lambda>b. if b then Inr True else some_err f xs)"

fun find_err :: "('a \<Rightarrow> js_error + bool) \<Rightarrow> 'a list \<Rightarrow> js_error + 'a option" where
  "find_err f [] = Inr None"
| "find_err f (x # xs) = bind_err (f x) (\<lambda>b. if b then Inr (Some x) else find_err f xs)"

text \<open>
  A step that reads properties of \<open>v\<close>: it raises a TypeError when \<open>v\<close> is \<^verbatim>\<open>null\<close> or
  \<^verbatim>\<open>undefined\<close>, and gives \<open>f v\<close> otherwise.
\<close>

definition reading :: "jsval \<Rightarrow> (jsval \<Rightarrow> 'a) \<Rightarrow> js_error + 'a" where
  "reading v f =
     (if nullish v then Inl (type_error ''Cannot read properties of undefined or null'')
      else Inr (f v))"

section \<open>Dashboard state: \<^verbatim>\<open>handleAgentAction\<close> (App.tsx)\<close>

text \<open>
  The part of the component state that \<^verbatim>\<open>handleAgentAction\<close> reads and writes. Alerts
  shown to the user and the timers it starts are recorded in the state.
\<close>

datatype alert =
    AutomatedModeIsActive
  | ActionFailed string jsval
  | ActionError string jsval

record agent =
  agent_name :: string
  apiName :: string

record app_state =
  automatedMode :: bool
  isInitialLoad :: bool
  agentFirestoreStates :: jsobj
  loading :: "string option"
  alerts :: "alert list"
  timers :: "nat list"

text \<open>What \<^verbatim>\<open>await agent.action()\<close> does: resolve with a value or throw.\<close>

datatype action_outcome = Resolves jsval | Throws js_error

text \<open>
  The updater of the optimistic update:
  \<^verbatim>\<open>prevStates => ({...prevStates, [apiName]: {state: 'active', status: 'active',
      agent_state: 'active', ...prevStates[apiName]}})\<close>
\<close>

definition optimistic_entry :: "jsval \<Rightarrow> jsval" where
  "optimistic_entry prev =
     Obj (spread [(''state'', Str ''active''), (''status'', Str ''active''),
                  (''agent_state'', Str ''active'')] prev)"

definition optimistic_update :: "string \<Rightarrow> jsobj \<Rightarrow> jsobj" where
  "optimistic_update k prevStates =
     AList.update k (optimistic_entry (field prevStates k)) (assign [] prevStates)"

text \<open>
  The updater of the revert, the same in the failure branch and in the catch block:
  \<^verbatim>\<open>prevStates => ({...prevStates, [apiName]: {state: 'idle', status: 'idle',
      agent_state: 'idle', ...prevStates[apiName]}})\<close>
\<close>

definition revert_entry :: "jsval \<Rightarrow> jsval" where
  "revert_entry prev =
     Obj (spread [(''state'', Str ''idle''), (''status'', Str ''idle''),
                  (''agent_state'', Str ''idle'')] prev)"

definition revert_update :: "string \<Rightarrow> jsobj \<Rightarrow> jsobj" where
  "revert_update k prevStates =
     AList.update k (revert_entry (field prevStates k)) (assign [] prevStates)"

text \<open>
  The catch block and the failure branch. The alert is shown only after the initial load;
  \<^verbatim>\<open>error.message || 'Unknown error'\<close> and \<^verbatim>\<open>result.detail || 'Unknown error'\<close>.
\<close>

definition on_action_error :: "agent \<Rightarrow> js_error \<Rightarrow> app_state \<Rightarrow> app_state" where
  "on_action_error a e st =
     (let st' = st\<lparr>agentFirestoreStates := revert_update (apiName a) (agentFirestoreStates st)\<rparr>
      in if \<not> isInitialLoad st
         then st'\<lparr>alerts := alerts st' @
                [ActionError (agent_name a) (js_or (Str (err_message e)) (Str ''Unknown error''))]\<rparr>
         else st')"

definition on_action_failed :: "agent \<Rightarrow> jsval \<Rightarrow> app_state \<Rightarrow> app_state" where
  "on_action_failed a result st =
     (let st' = st\<lparr>agentFirestoreStates := revert_update (apiName a) (agentFirestoreStates st)\<rparr>
      in if \<not> isInitialLoad st
         then st'\<lparr>alerts := alerts st' @
                [ActionFailed (agent_name a) (js_or (prop_of result ''detail'') (Str ''Unknown error''))]\<rparr>
         else st')"

text \<open>
  \<^verbatim>\<open>handleAgentAction\<close>. The component state can change while the action is awaited
  (the Firestore listener replaces \<^verbatim>\<open>agentFirestoreStates\<close>); \<open>during\<close> is that
  change. Reading \<^verbatim>\<open>result.ok\<close> of a \<^verbatim>\<open>null\<close> or \<^verbatim>\<open>undefined\<close> result raises a
  TypeError inside the \<^verbatim>\<open>try\<close>, which the catch block handles. The \<^verbatim>\<open>finally\<close> block
  starts the 3000 ms timer that clears \<^verbatim>\<open>loading\<close>.
\<close>

definition handleAgentAction ::
  "agent \<Rightarrow> action_outcome \<Rightarrow> (jsobj \<Rightarrow> jsobj) \<Rightarrow> app_state \<Rightarrow> app_state" where
  "handleAgentAction a outcome during st =
     (if automatedMode st then st\<lparr>alerts := alerts st @ [AutomatedModeIsActive]\<rparr>
      else
        let st1 = st\<lparr>agentFirestoreStates := optimistic_update (apiName a) (agentFirestoreStates st),
                     loading := Some (agent_name a)\<rparr>;
            st2 = st1\<lparr>agentFirestoreStates := during (agentFirestoreStates st1)\<rparr>;
            st3 = (case outcome of
                     Throws e \<Rightarrow> on_action_error a e st2
                   | Resolves result \<Rightarrow>
                       if nullish result
                       then on_action_error a (type_error ''Cannot read properties'') st2
                       else if prop_of result ''ok'' \<noteq> Bool False then st2
                       else on_action_failed a result st2)
        in st3\<lparr>timers := timers st3 @ [3000]\<rparr>)"

text \<open>
  How the dashboard reads an entry (status badge and agent cards):
  \<^verbatim>\<open>firestoreState?.state || firestoreState?.status || firestoreState?.agent_state\<close>,
  lower-cased when it is a string.
\<close>

definition firestoreStateValue :: "jsval \<Rightarrow> jsval" where
  "firestoreStateValue entry =
     js_or (js_or (prop_of entry ''state'') (prop_of entry ''status'')) (prop_of entry ''agent_state'')"

definition normalizedFirestoreState :: "jsval \<Rightarrow> string option" where
  "normalizedFirestoreState entry =
     (case firestoreStateValue entry of Str s \<Rightarrow> Some (toLowerCase s) | _ \<Rightarrow> None)"

definition isActiveFromFirestore :: "jsval \<Rightarrow> bool" where
  "isActiveFromFirestore entry =
     (normalizedFirestoreState entry \<in> {Some ''active'', Some ''generating'', Some ''processing''})"

definition isIdleFromFirestore :: "jsval \<Rightarrow> bool" where
  "isIdleFromFirestore entry =
     (normalizedFirestoreState entry \<in> {Some ''idle'', Some ''completed'', Some ''error''})"

text \<open>
  The entry the \<^verbatim>\<open>all_states\<close> listener stores for an agent whose state field is set:
  \<^verbatim>\<open>{state: stateValue, last_activity: data[apiName + '_last_activity'] || null}\<close>.
\<close>

definition listener_entry :: "jsval \<Rightarrow> jsval \<Rightarrow> jsval" where
  "listener_entry stateValue last_activity =
     Obj [(''state'', stateValue), (''last_activity'', js_or last_activity Null)]"

section \<open>REST client (services/api.ts)\<close>

text \<open>Strings: \<^verbatim>\<open>s.includes(sub)\<close>, and a number inside a template literal.\<close>

fun startsWith :: "string \<Rightarrow> string \<Rightarrow> bool" where
  "startsWith s [] = True"
| "startsWith [] (c # cs) = False"
| "startsWith (x # xs) (c # cs) = (x = c \<and> startsWith xs cs)"


definition digit_char :: "nat \<Rightarrow> char" where
  "digit_char d =
     (case map_of (zip [0, 1, 2, 3, 4, 5, 6, 7, 8, 9] ''0123456789'') d of
        Some c \<Rightarrow> c
      | None \<Rightarrow> CHR ''?'')"

fun show_nat :: "nat \<Rightarrow> string" where
  "show_nat n = (if n < 10 then [digit_char n] else show_nat (n div 10) @ [digit_char (n mod 10)])"

declare show_nat.simps [simp del]






























section \<open>Firestore service (services/firestore.ts)\<close>

text \<open>
  A document of a query snapshot (\<^verbatim>\<open>doc.id\<close>, \<^verbatim>\<open>doc.data()\<close>) and the
  \<^verbatim>\<open>FirestoreDocument\<close> made from it. \<^verbatim>\<open>createdAt\<close> and \<^verbatim>\<open>updatedAt\<close> are optional
  dates.
\<close>

record snapshot_doc =
  snap_id :: string
  snap_data :: jsobj

record FirestoreDocument =
  doc_id :: string
  data :: jsobj
  createdAt :: "jsdate option"
  updatedAt :: "jsdate option"

text \<open>\<^verbatim>\<open>v?.toDate?.()\<close>: only a Firestore timestamp has the method.\<close>

fun toDate_opt :: "jsval \<Rightarrow> jsval" where
  "toDate_opt (Timestamp t) = DateV (DateAt t)"
| "toDate_opt v = Undefined"

text \<open>
  \<^verbatim>\<open>new Date(v)\<close>. A date is copied. A number is a time value, valid up to 8.64e15
  milliseconds either way; \<^verbatim>\<open>true\<close>, \<^verbatim>\<open>false\<close> and \<^verbatim>\<open>null\<close> count as the numbers 1, 0
  and 0, and \<^verbatim>\<open>undefined\<close> as \<^verbatim>\<open>NaN\<close>. A string is parsed, and an object is parsed as the
  string it converts to: \<open>conv\<close> is that parsing of the JavaScript engine, which gives the
  invalid date for what it cannot read.
\<close>

definition time_clip :: "int \<Rightarrow> jsdate" where
  "time_clip n = (if \<bar>n\<bar> \<le> 8640000000000000 then DateAt n else InvalidDate)"

fun new_Date :: "(jsval \<Rightarrow> jsdate) \<Rightarrow> jsval \<Rightarrow> jsdate" where
  "new_Date conv (DateV d) = d"
| "new_Date conv (Num n) = time_clip n"
| "new_Date conv (Bool b) = DateAt (if b then 1 else 0)"
| "new_Date conv Null = DateAt 0"
| "new_Date conv Undefined = InvalidDate"
| "new_Date conv v = conv v"

text \<open>
  \<^verbatim>\<open>data.created_at?.toDate?.() || data.createdAt?.toDate?.() || data.created_at ||
  data.createdAt\<close>
\<close>

definition createdAtTimestamp :: "jsobj \<Rightarrow> jsval" where
  "createdAtTimestamp d =
     js_or (js_or (js_or (toDate_opt (field d ''created_at'')) (toDate_opt (field d ''createdAt'')))
                  (field d ''created_at''))
           (field d ''createdAt'')"

text \<open>
  \<^verbatim>\<open>data.modified_at?.toDate?.() || data.updated_at?.toDate?.() ||
  data.updatedAt?.toDate?.() || data.modified_at || data.updated_at || data.updatedAt\<close>
\<close>

definition updatedAtTimestamp :: "jsobj \<Rightarrow> jsval" where
  "updatedAtTimestamp d =
     js_or (js_or (js_or (js_or (js_or (toDate_opt (field d ''modified_at''))
                                       (toDate_opt (field d ''updated_at'')))
                                (toDate_opt (field d ''updatedAt'')))
                         (field d ''modified_at''))
                  (field d ''updated_at''))
           (field d ''updatedAt'')"

text \<open>\<^verbatim>\<open>ts ? new Date(ts) : undefined\<close>, as a field of the document and as a value.\<close>

definition date_if_truthy :: "(jsval \<Rightarrow> jsdate) \<Rightarrow> jsval \<Rightarrow> jsdate option" where
  "date_if_truthy conv ts = (if truthy ts then Some (new_Date conv ts) else None)"

definition date_value :: "jsdate option \<Rightarrow> jsval" where
  "date_value d = (case d of Some t \<Rightarrow> DateV t | None \<Rightarrow> Undefined)"

text \<open>
  The body of the \<^verbatim>\<open>forEach\<close> of \<^verbatim>\<open>snapshotToDocuments\<close> (and, word for word, of
  \<^verbatim>\<open>getCollection\<close>): the document pushed for one snapshot document.
\<close>

definition toDocument :: "(jsval \<Rightarrow> jsdate) \<Rightarrow> snapshot_doc \<Rightarrow> FirestoreDocument" where
  "toDocument conv d =
     (let dat = snap_data d;
          cts = createdAtTimestamp dat;
          uts = updatedAtTimestamp dat
      in \<lparr>doc_id = snap_id d,
          data = assign (assign [] dat)
                   [(''created_at'', cts), (''modified_at'', uts),
                    (''createdAt'', date_value (date_if_truthy conv cts)),
                    (''updatedAt'', date_value (date_if_truthy conv uts))],
          createdAt = date_if_truthy conv cts,
          updatedAt = date_if_truthy conv uts\<rparr>)"

text \<open>
  \<^verbatim>\<open>Array.prototype.sort(cmp)\<close>. The comparator gives a number, which can be \<^verbatim>\<open>NaN\<close>; the
  sort takes \<^verbatim>\<open>NaN\<close> as 0. The sort is stable, and for a consistent comparator its result is
  the one of a stable insertion sort: an element goes before the first element of the sorted
  rest that it does not have to follow. For a comparator that is not consistent (one that
  gives \<^verbatim>\<open>NaN\<close> for some pairs only) the order is left to the engine; the model keeps the
  insertion sort there.
\<close>

definition follows :: "int option \<Rightarrow> bool" where
  "follows c = (case c of None \<Rightarrow> False | Some n \<Rightarrow> n > 0)"

fun insort_cmp :: "('a \<Rightarrow> 'a \<Rightarrow> int option) \<Rightarrow> 'a \<Rightarrow> 'a list \<Rightarrow> 'a list" where
  "insort_cmp cmp x [] = [x]"
| "insort_cmp cmp x (y # ys) =
     (if follows (cmp x y) then y # insort_cmp cmp x ys else x # y # ys)"

definition js_sort :: "('a \<Rightarrow> 'a \<Rightarrow> int option) \<Rightarrow> 'a list \<Rightarrow> 'a list" where
  "js_sort cmp xs = foldr (insort_cmp cmp) xs []"

text \<open>
  The comparator of the service:
  \<^verbatim>\<open>(a, b) => { if (!a.createdAt || !b.createdAt) return 0;
                 return b.createdAt.getTime() - a.createdAt.getTime(); }\<close>
\<close>

definition compare_createdAt :: "FirestoreDocument \<Rightarrow> FirestoreDocument \<Rightarrow> int option" where
  "compare_createdAt a b =
     (case (createdAt a, createdAt b) of
        (Some da, Some db) \<Rightarrow> num_sub (getTime db) (getTime da)
      | _ \<Rightarrow> Some 0)"

text \<open>\<^verbatim>\<open>if (documents.every(d => d.createdAt)) documents.sort(...)\<close>\<close>

definition sort_if_dated :: "FirestoreDocument list \<Rightarrow> FirestoreDocument list" where
  "sort_if_dated documents =
     (if list_all (\<lambda>d. createdAt d \<noteq> None) documents
      then js_sort compare_createdAt documents else documents)"

definition snapshotToDocuments :: "(jsval \<Rightarrow> jsdate) \<Rightarrow> snapshot_doc list \<Rightarrow> FirestoreDocument list" where
  "snapshotToDocuments conv querySnapshot = sort_if_dated (map (toDocument conv) querySnapshot)"

text \<open>
  The message of the error that replaces a \<^verbatim>\<open>permission-denied\<close> error.
\<close>

definition permission_denied_message :: "string \<Rightarrow> string" where
  "permission_denied_message collectionName =
     ''Permission denied: Check Firestore security rules for collection '' @ [CHR 0x27] @
     collectionName @ [CHR 0x27] @ ''. See FIRESTORE_RULES_FIX.md for instructions.''"


text \<open>
  Listeners. The caller passes a \<^verbatim>\<open>callback\<close> for the documents and, optionally, an
  \<^verbatim>\<open>onError\<close>; both are functions of the caller, which return or throw (the error thrown,
  if any, is their result here). What a listener does is recorded as events: console output
  and the calls of the two functions.
\<close>

type_synonym callback = "FirestoreDocument list \<Rightarrow> js_error option"

type_synonym error_callback = "js_error \<Rightarrow> js_error option"

datatype listener_event =
    LogInfo string
  | LogError string js_error
  | CallCallback "FirestoreDocument list"
  | CallOnError js_error

text \<open>\<^verbatim>\<open>if (onError) onError(e)\<close>: the events, and the error thrown by \<^verbatim>\<open>onError\<close> if any.\<close>

definition call_onError :: "error_callback option \<Rightarrow> js_error \<Rightarrow> listener_event list \<times> js_error option" where
  "call_onError onError e =
     (case onError of None \<Rightarrow> ([], None) | Some f \<Rightarrow> ([CallOnError e], f e))"

text \<open>
  The query and the two functions handed to \<^verbatim>\<open>onSnapshot\<close>. Building the query and
  subscribing is the SDK's: \<open>sdk\<close> gives its unsubscribe function (a handle) or the error
  it throws.
\<close>

record query =
  q_collection :: string
  q_orderBy :: "(string \<times> string) option"
  q_limit :: nat

record observer =
  obs_next :: "snapshot_doc list \<Rightarrow> listener_event list \<times> js_error option"
  obs_error :: "js_error \<Rightarrow> listener_event list \<times> js_error option"

type_synonym sdk = "query \<Rightarrow> observer \<Rightarrow> js_error + nat"

text \<open>
  The function returned to the caller: the unsubscribe function of the SDK or the function
  that does nothing.
\<close>

datatype unsubscribe = SdkUnsubscribe nat | NoOp

text \<open>
  The two functions \<^verbatim>\<open>listenToCollection\<close> hands to \<^verbatim>\<open>onSnapshot\<close>: for a snapshot and
  for a subscription error.
\<close>

definition collection_on_snapshot ::
  "(jsval \<Rightarrow> jsdate) \<Rightarrow> string \<Rightarrow> callback \<Rightarrow> snapshot_doc list \<Rightarrow>
   listener_event list \<times> js_error option" where
  "collection_on_snapshot conv collectionName callback querySnapshot =
     ([LogInfo (''[Firestore] Snapshot update for '' @ collectionName @ '': '' @
                show_nat (length querySnapshot) @ '' documents''),
       CallCallback (snapshotToDocuments conv querySnapshot)],
      callback (snapshotToDocuments conv querySnapshot))"

definition collection_on_error ::
  "string \<Rightarrow> error_callback option \<Rightarrow> js_error \<Rightarrow> listener_event list \<times> js_error option" where
  "collection_on_error collectionName onError e =
     (let told = (if err_code e = Some ''permission-denied''
                  then call_onError onError (new_Error (permission_denied_message collectionName))
                  else call_onError onError e)
      in (LogError (''[Firestore] ERROR in listener for '' @ collectionName @ '':'') e # fst told,
          snd told))"

text \<open>
  \<^verbatim>\<open>listenToCollection(collectionName, callback, onError, limitCount = 50)\<close>: its events and
  its result, the function returned or the error thrown to the caller. In the catch block
  \<^verbatim>\<open>onError(error)\<close> is called unguarded: what it throws reaches the caller.
\<close>

definition listenToCollection ::
  "(jsval \<Rightarrow> jsdate) \<Rightarrow> sdk \<Rightarrow> string \<Rightarrow> callback \<Rightarrow> error_callback option \<Rightarrow> nat option \<Rightarrow>
   listener_event list \<times> (js_error + unsubscribe)" where
  "listenToCollection conv onSnapshot collectionName callback onError limitCount =
     (let evs = [LogInfo (''[Firestore] Setting up listener for collection: '' @ collectionName)];
          q = \<lparr>q_collection = collectionName, q_orderBy = None,
               q_limit = (case limitCount of None \<Rightarrow> 50 | Some n \<Rightarrow> n)\<rparr>;
          obs = \<lparr>obs_next = collection_on_snapshot conv collectionName callback,
                 obs_error = collection_on_error collectionName onError\<rparr>
      in case onSnapshot q obs of
           Inr u \<Rightarrow> (evs, Inr (SdkUnsubscribe u))
         | Inl e \<Rightarrow>
             (let told = call_onError onError e
              in (evs @ [LogError (''[Firestore] ERROR setting up listener for '' @ collectionName @ '':'') e]
                      @ fst told,
                  case snd told of None \<Rightarrow> Inr NoOp | Some thrown \<Rightarrow> Inl thrown)))"

text \<open>
  The wrappers, with \<^verbatim>\<open>limitCount = 20\<close>. They are called as static methods of the service
  class, as the application calls them (\<^verbatim>\<open>this.listenToCollection\<close> is the method above).
\<close>

definition default_20 :: "nat option \<Rightarrow> nat option" where
  "default_20 limitCount = Some (case limitCount of None \<Rightarrow> 20 | Some n \<Rightarrow> n)"

definition listenToEvaluations ::
  "(jsval \<Rightarrow> jsdate) \<Rightarrow> sdk \<Rightarrow> callback \<Rightarrow> error_callback option \<Rightarrow> nat option \<Rightarrow>
   listener_event list \<times> (js_error + unsubscribe)" where
  "listenToEvaluations conv onSnapshot callback onError limitCount =
     listenToCollection conv onSnapshot ''agent_evaluations'' callback onError (default_20 limitCount)"

definition listenToNotifications ::
  "(jsval \<Rightarrow> jsdate) \<Rightarrow> sdk \<Rightarrow> callback \<Rightarrow> error_callback option \<Rightarrow> nat option \<Rightarrow>
   listener_event list \<times> (js_error + unsubscribe)" where
  "listenToNotifications conv onSnapshot callback onError limitCount =
     listenToCollection conv onSnapshot ''agent_notifications'' callback onError (default_20 limitCount)"

definition listenToCOAReports ::
  "(jsval \<Rightarrow> jsdate) \<Rightarrow> sdk \<Rightarrow> callback \<Rightarrow> error_callback option \<Rightarrow> nat option \<Rightarrow>
   listener_event list \<times> (js_error + unsubscribe)" where
  "listenToCOAReports conv onSnapshot callback onError limitCount =
     listenToCollection conv onSnapshot ''agent_coa_reports'' callback onError (default_20 limitCount)"

definition listenToSiteReports ::
  "(jsval \<Rightarrow> jsdate) \<Rightarrow> sdk \<Rightarrow> callback \<Rightarrow> error_callback option \<Rightarrow> nat option \<Rightarrow>
   listener_event list \<times> (js_error + unsubscribe)" where
  "listenToSiteReports conv onSnapshot callback onError limitCount =
     listenToCollection conv onSnapshot ''agent_sites'' callback onError (default_20 limitCount)"

text \<open>
  \<^verbatim>\<open>listenToScenarios(callback, onError, limitCount = 10)\<close> has its own copy of the code,
  for \<^verbatim>\<open>agent_scenarios\<close> ordered by \<^verbatim>\<open>created_at\<close>, newest first.
\<close>

definition scenarios_on_snapshot ::
  "(jsval \<Rightarrow> jsdate) \<Rightarrow> callback \<Rightarrow> snapshot_doc list \<Rightarrow> listener_event list \<times> js_error option" where
  "scenarios_on_snapshot conv callback querySnapshot =
     ([LogInfo (''[Firestore] Snapshot update for scenarios: '' @
                show_nat (length querySnapshot) @ '' documents''),
       CallCallback (snapshotToDocuments conv querySnapshot)],
      callback (snapshotToDocuments conv querySnapshot))"

definition scenarios_on_error ::
  "error_callback option \<Rightarrow> js_error \<Rightarrow> listener_event list \<times> js_error option" where
  "scenarios_on_error onError e =
     (let told = (if err_code e = Some ''permission-denied''
                  then call_onError onError (new_Error (permission_denied_message ''agent_scenarios''))
                  else call_onError onError e)
      in (LogError ''[Firestore] ERROR in listener for scenarios:'' e # fst told, snd told))"

definition listenToScenarios ::
  "(jsval \<Rightarrow> jsdate) \<Rightarrow> sdk \<Rightarrow> callback \<Rightarrow> error_callback option \<Rightarrow> nat option \<Rightarrow>
   listener_event list \<times> (js_error + unsubscribe)" where
  "listenToScenarios conv onSnapshot callback onError limitCount =
     (let n = (case limitCount of None \<Rightarrow> 10 | Some n \<Rightarrow> n);
          evs = [LogInfo (''[Firestore] Setting up listener for latest '' @ show_nat n @ '' scenarios'')];
          q = \<lparr>q_collection = ''agent_scenarios'', q_orderBy = Some (''created_at'', ''desc''),
               q_limit = n\<rparr>;
          obs = \<lparr>obs_next = scenarios_on_snapshot conv callback,
                 obs_error = scenarios_on_error onError\<rparr>
      in case onSnapshot q obs of
           Inr u \<Rightarrow> (evs, Inr (SdkUnsubscribe u))
         | Inl e \<Rightarrow>
             (let told = call_onError onError e
              in (evs @ [LogError ''[Firestore] ERROR setting up listener for scenarios:'' e] @ fst told,
                  case snd told of None \<Rightarrow> Inr NoOp | Some thrown \<Rightarrow> Inl thrown)))"

section \<open>Spreadsheet export (utils/exportExcel.ts)\<close>

text \<open>
  A workbook is the list of its worksheets, in the order of the \<^verbatim>\<open>addWorksheet\<close> calls; a
  worksheet is its name and its rows of cell values. Fonts, fills, merged cells, column
  widths and the logo image are not part of the model.
\<close>

record worksheet =
  sheet_name :: jsval
  sheet_rows :: "jsval list list"

record workbook =
  creator :: string
  worksheets :: "worksheet list"

text \<open>
  What an export call ends with: an alert and nothing else, a workbook written and handed to
  the browser as a download under a file name, or an exception (the promise of the export
  is rejected and nothing is downloaded).
\<close>

datatype export_outcome =
    Alerted string
  | Downloaded string workbook
  | Threw js_error

definition outcome_of :: "js_error + string \<times> workbook \<Rightarrow> export_outcome" where
  "outcome_of r = (case r of Inl e \<Rightarrow> Threw e | Inr (file_name, wb) \<Rightarrow> Downloaded file_name wb)"

text \<open>
  The environment of the module: whether \<^verbatim>\<open>/logo.png\<close> could be loaded, the time of the
  call (\<^verbatim>\<open>new Date().toISOString()\<close>), the entries of \<^verbatim>\<open>data/standards.json\<close>, the
  conversions of the engine (\<^verbatim>\<open>toLocaleString\<close> of a date, date parsing, \<^verbatim>\<open>String(v)\<close>,
  the number a string or an object converts to, \<^verbatim>\<open>NaN\<close> being \<open>None\<close>, and
  \<^verbatim>\<open>JSON.stringify(v)\<close>), and the spreadsheet library, which is not part of the repository.
  Of the library, \<^verbatim>\<open>addWorksheet(name)\<close> can refuse a name, depending on the names of the
  sheets the workbook has already (\<open>library_addWorksheet\<close> gives the error thrown, if any; an
  accepted sheet has the name asked for: a library that alters a name it accepts is not
  modelled), and \<^verbatim>\<open>workbook.xlsx.writeBuffer()\<close> can fail (\<open>library_writeBuffer\<close>). The
  other calls of the library (rows, cells, images, styles) are taken to succeed, and so is
  the loading of the logo, whose failures the code catches.
\<close>

record export_env =
  logo_loaded :: bool
  now_ISO :: string
  standards :: "(string \<times> string) list"
  toLocaleString :: "jsdate \<Rightarrow> string"
  date_parse :: "jsval \<Rightarrow> jsdate"
  js_String :: "jsval \<Rightarrow> string"
  js_Number :: "jsval \<Rightarrow> int option"
  JSON_stringify :: "jsval \<Rightarrow> string"
  library_addWorksheet :: "jsval list \<Rightarrow> jsval \<Rightarrow> js_error option"
  library_writeBuffer :: "workbook \<Rightarrow> js_error option"

definition getStandardsMap :: "export_env \<Rightarrow> (string \<rightharpoonup> string)" where
  "getStandardsMap env = foldl (\<lambda>m (i, d). m(i \<mapsto> d)) Map.empty (standards env)"

text \<open>
  \<^verbatim>\<open>workbook.addWorksheet(name)\<close> on a workbook that has the sheets given: the new sheet,
  still without rows, or the error of the library.
\<close>

definition addWorksheet :: "export_env \<Rightarrow> worksheet list \<Rightarrow> jsval \<Rightarrow> js_error + worksheet" where
  "addWorksheet env sheets name =
     (case library_addWorksheet env (map sheet_name sheets) name of
        Some e \<Rightarrow> Inl e
      | None \<Rightarrow> Inr \<lparr>sheet_name = name, sheet_rows = []\<rparr>)"

text \<open>
  The end of each export: \<^verbatim>\<open>await workbook.xlsx.writeBuffer()\<close>, which can fail, then the
  download of the buffer under the file name. The calls of the browser that make the
  download (\<^verbatim>\<open>Blob\<close>, \<^verbatim>\<open>createObjectURL\<close>, \<^verbatim>\<open>link.click()\<close>) are taken to succeed.
\<close>

definition write_file :: "export_env \<Rightarrow> string \<Rightarrow> worksheet list \<Rightarrow> js_error + string \<times> workbook" where
  "write_file env file_name sheets =
     (let wb = \<lparr>creator = ''PrecepGo'', worksheets = sheets\<rparr>
      in case library_writeBuffer env wb of Some e \<Rightarrow> Inl e | None \<Rightarrow> Inr (file_name, wb))"

text \<open>
  The rows \<^verbatim>\<open>addLogoHeader\<close> leaves in a fresh sheet: the title in the third cell of the
  first row, the subtitle (\<^verbatim>\<open>subtitle || 'COA Compliance Reports'\<close>) in the third cell of
  the second row, and an empty row.
\<close>

definition addLogoHeader :: "jsval \<Rightarrow> jsval list list" where
  "addLogoHeader subtitle =
     [[Undefined, Undefined, Str ''PrecepGo''],
      [Undefined, Undefined, js_or subtitle (Str ''COA Compliance Reports'')],
      []]"

text \<open>
  \<^verbatim>\<open>new Date().toISOString().replace(/[:.]/g, '-').substring(0, 19)\<close>
\<close>

definition file_timestamp :: "export_env \<Rightarrow> string" where
  "file_timestamp env =
     take 19 (map (\<lambda>c. if c = CHR '':'' \<or> c = CHR ''.'' then CHR ''-'' else c) (now_ISO env))"

text \<open>\<^verbatim>\<open>Array.isArray(v) ? v.length : 0\<close> and \<^verbatim>\<open>Array.isArray(v) && v.length > 0\<close>\<close>

definition array_count :: "jsval \<Rightarrow> jsval" where
  "array_count v = (if isArray v then Num (int (length (elements v))) else Num 0)"

definition nonempty_array :: "jsval \<Rightarrow> bool" where
  "nonempty_array v = (isArray v \<and> length (elements v) > 0)"

subsection \<open>\<^verbatim>\<open>exportCOAReportsToExcel\<close>\<close>

text \<open>
  \<^verbatim>\<open>getDate\<close>: \<^verbatim>\<open>new Date(doc.createdAt).getTime()\<close> first, then the time of
  \<^verbatim>\<open>data.created_at\<close>, then 0. The time of an invalid date is \<^verbatim>\<open>NaN\<close>.
\<close>

definition getDate :: "export_env \<Rightarrow> FirestoreDocument \<Rightarrow> int option" where
  "getDate env d =
     (case createdAt d of
        Some dt \<Rightarrow> getTime dt
      | None \<Rightarrow>
          let c = field (data d) ''created_at''
          in if truthy c then getTime (new_Date (date_parse env) (js_or (toDate_opt c) c))
             else Some 0)"

definition sortedDocs :: "export_env \<Rightarrow> FirestoreDocument list \<Rightarrow> FirestoreDocument list" where
  "sortedDocs env documents = js_sort (\<lambda>a b. num_sub (getDate env b) (getDate env a)) documents"

text \<open>
  The debug output reads \<^verbatim>\<open>Object.keys(data.student_reports[0])\<close> when
  \<^verbatim>\<open>student_reports\<close> is a non-empty array: a TypeError when that entry is \<^verbatim>\<open>null\<close>.
\<close>

definition log_first_report :: "jsval \<Rightarrow> js_error + unit" where
  "log_first_report reports =
     (case elements reports of
        [] \<Rightarrow> Inr ()
      | sr # rest \<Rightarrow>
          if nullish sr then Inl (type_error ''Cannot convert undefined or null to object'')
          else Inr ())"

text \<open>
  \<^verbatim>\<open>reports.some(sr => Array.isArray(sr.standard_scores) && sr.standard_scores.length > 0)\<close>
\<close>

definition has_scores :: "jsval \<Rightarrow> bool" where
  "has_scores sr = nonempty_array (prop_of sr ''standard_scores'')"

definition hasStudentStandards :: "jsval list \<Rightarrow> js_error + bool" where
  "hasStudentStandards reports = some_err (\<lambda>sr. reading sr has_scores) reports"

text \<open>The test of the search loop on a document.\<close>

definition hasData :: "FirestoreDocument \<Rightarrow> js_error + bool" where
  "hasData d =
     (if isArray (field (data d) ''student_reports'')
      then hasStudentStandards (elements (field (data d) ''student_reports''))
      else Inr False)"

text \<open>
  \<^verbatim>\<open>documentToUse\<close>: the latest document, unless its \<^verbatim>\<open>student_reports\<close> is a
  non-empty array without any standard scores; then the first of the sorted documents that
  has some, if there is one.
\<close>

definition documentToUse ::
  "FirestoreDocument list \<Rightarrow> FirestoreDocument \<Rightarrow> js_error + FirestoreDocument" where
  "documentToUse sortedList latestDoc =
     (let reports = field (data latestDoc) ''student_reports''
      in if nonempty_array reports then
           bind_err (hasStudentStandards (elements reports)) (\<lambda>hasStandards.
             if \<not> hasStandards
             then bind_err (find_err hasData sortedList) (\<lambda>found.
                    Inr (case found of Some d \<Rightarrow> d | None \<Rightarrow> latestDoc))
             else Inr latestDoc)
         else Inr latestDoc)"

definition summary_header :: "export_env \<Rightarrow> jsval list list" where
  "summary_header env =
     (if logo_loaded env then addLogoHeader Undefined
      else [[Str ''PrecepGo - COA Compliance Report''], []])"

definition created_date_cell :: "export_env \<Rightarrow> FirestoreDocument \<Rightarrow> jsval" where
  "created_date_cell env d =
     (case createdAt d of Some dt \<Rightarrow> Str (toLocaleString env dt) | None \<Rightarrow> Str ''N/A'')"

definition summary_rows :: "export_env \<Rightarrow> FirestoreDocument \<Rightarrow> jsval list list" where
  "summary_rows env d =
     (let finalData = data d
      in summary_header env @
         [[Str ''Report ID'', Str ''Created Date'', Str ''Students Processed'',
           Str ''Total Standards'', Str ''Student Reports Count'',
           Str ''Standard Scores Count'', Str ''Agent''],
          [Str (take 8 (doc_id d)),
           created_date_cell env d,
           js_or (field finalData ''students_processed'') (Num 0),
           js_or (field finalData ''total_standards'') (Num 0),
           array_count (field finalData ''student_reports''),
           array_count (field finalData ''standard_scores''),
           js_or (field finalData ''agent'') (Str ''N/A'')]])"

text \<open>\<^verbatim>\<open>const studentName = studentReport.student_name || 'N/A'\<close>\<close>

definition studentName :: "jsval \<Rightarrow> jsval" where
  "studentName studentReport = js_or (prop_of studentReport ''student_name'') (Str ''N/A'')"

text \<open>
  \<^verbatim>\<open>v.length\<close> of a value that is neither \<^verbatim>\<open>null\<close> nor \<^verbatim>\<open>undefined\<close>, and
  \<^verbatim>\<open>v > n\<close> for an integer \<open>n\<close>.
\<close>

definition length_of :: "jsval \<Rightarrow> jsval" where
  "length_of v =
     (case v of
        Str s \<Rightarrow> Num (int (length s))
      | Arr xs \<Rightarrow> Num (int (length xs))
      | Obj fs \<Rightarrow> field fs ''length''
      | _ \<Rightarrow> Undefined)"

definition greater_than :: "export_env \<Rightarrow> jsval \<Rightarrow> int \<Rightarrow> bool" where
  "greater_than env v n =
     (case v of
        Num m \<Rightarrow> m > n
      | Undefined \<Rightarrow> False
      | Null \<Rightarrow> 0 > n
      | Bool b \<Rightarrow> (if b then 1 else 0) > n
      | w \<Rightarrow> (case js_Number env w of Some m \<Rightarrow> m > n | None \<Rightarrow> False))"

text \<open>
  The name of a student's sheet:
  \<^verbatim>\<open>studentName.length > 31 ? studentName.substring(0, 28) + '...' : studentName\<close>.
  Only a string has a \<^verbatim>\<open>substring\<close> method: the call is a TypeError on any other value
  whose length is over 31.
\<close>

definition sheetName :: "export_env \<Rightarrow> jsval \<Rightarrow> js_error + jsval" where
  "sheetName env name =
     (if greater_than env (length_of name) 31
      then (case name of
              Str n \<Rightarrow> Inr (Str (take 28 n @ ''...''))
            | _ \<Rightarrow> Inl (type_error ''studentName.substring is not a function''))
      else Inr name)"

text \<open>\<^verbatim>\<open>standardsMap.get(standardId) || standardId\<close>\<close>

definition standardDescription :: "(string \<rightharpoonup> string) \<Rightarrow> jsval \<Rightarrow> jsval" where
  "standardDescription standardsMap sid =
     js_or (case sid of
              Str i \<Rightarrow> (case standardsMap i of Some d \<Rightarrow> Str d | None \<Rightarrow> Undefined)
            | _ \<Rightarrow> Undefined)
           sid"

text \<open>
  Inside the loop over a student's scores:
  \<^verbatim>\<open>score.id || score.standard_id || score.standardId || 'N/A'\<close>, and the first of
  \<^verbatim>\<open>score.score\<close>, \<^verbatim>\<open>score.value\<close>, \<^verbatim>\<open>score.scores\<close> that is neither
  \<^verbatim>\<open>undefined\<close> nor \<^verbatim>\<open>null\<close>, else 0.
\<close>

definition standardId :: "jsval \<Rightarrow> jsval" where
  "standardId score =
     js_or (js_or (js_or (prop_of score ''id'') (prop_of score ''standard_id''))
                  (prop_of score ''standardId''))
           (Str ''N/A'')"

definition scoreValue :: "jsval \<Rightarrow> jsval" where
  "scoreValue score =
     (if \<not> nullish (prop_of score ''score'') then prop_of score ''score''
      else if \<not> nullish (prop_of score ''value'') then prop_of score ''value''
      else if \<not> nullish (prop_of score ''scores'') then prop_of score ''scores''
      else Num 0)"

definition score_row :: "(string \<rightharpoonup> string) \<Rightarrow> jsval \<Rightarrow> jsval list" where
  "score_row standardsMap score =
     [standardDescription standardsMap (standardId score), scoreValue score]"

definition student_summary_section :: "string \<Rightarrow> jsval \<Rightarrow> jsval list list" where
  "student_summary_section reportId studentReport =
     [[Str ''Student Summary''],
      [],
      [Str ''Field'', Str ''Value''],
      [Str ''Report ID'', Str reportId],
      [Str ''Student ID'', js_or (prop_of studentReport ''student_id'') (Str ''N/A'')],
      [Str ''Student Name'', studentName studentReport],
      [Str ''Class Standing'', js_or (prop_of studentReport ''class_standing'') (Str ''N/A'')],
      [Str ''Evaluations Processed'', js_or (prop_of studentReport ''evaluations_processed'') (Num 0)],
      [Str ''Total Score'', js_or (prop_of studentReport ''total_score'') (Num 0)],
      [Str ''Total Standards'', js_or (prop_of studentReport ''total_standards'') (Num 0)],
      [Str ''Generated At'', js_or (prop_of studentReport ''generated_at'') (Str ''N/A'')],
      [],
      []]"

text \<open>
  The standard scores section: its three heading rows, then a row for each entry of
  \<^verbatim>\<open>studentReport.standard_scores || studentReport.standards || []\<close> when that is a
  non-empty array (a TypeError at an entry that is \<^verbatim>\<open>null\<close>), and the row
  \<^verbatim>\<open>No standards found\<close> otherwise.
\<close>

definition standardScores :: "jsval \<Rightarrow> jsval" where
  "standardScores studentReport =
     js_or (js_or (prop_of studentReport ''standard_scores'') (prop_of studentReport ''standards''))
           (Arr [])"

definition standard_scores_section :: "(string \<rightharpoonup> string) \<Rightarrow> jsval \<Rightarrow> js_error + jsval list list" where
  "standard_scores_section standardsMap studentReport =
     bind_err
       (if nonempty_array (standardScores studentReport)
        then mapM_err (\<lambda>score. reading score (score_row standardsMap))
               (elements (standardScores studentReport))
        else Inr [[Str ''No standards found'', Str []]])
       (\<lambda>rows. Inr ([[Str ''Standard Scores''],
                      [],
                      [Str ''Standard Description'', Str ''Preceptor Attestations'']] @ rows))"

text \<open>
  The body of the loop over \<^verbatim>\<open>student_reports\<close>, in the order of the code: the name is
  read (a TypeError at an entry that is \<^verbatim>\<open>null\<close>), the sheet name is made, the sheet is
  added to the workbook, and its rows are written.
\<close>

definition addStudentSheet ::
  "export_env \<Rightarrow> string \<Rightarrow> worksheet list \<Rightarrow> jsval \<Rightarrow> js_error + worksheet list" where
  "addStudentSheet env reportId sheets studentReport =
     bind_err (reading studentReport studentName) (\<lambda>name.
       bind_err (sheetName env name) (\<lambda>sheet_name_asked.
         bind_err (addWorksheet env sheets sheet_name_asked) (\<lambda>studentSheet.
           bind_err (standard_scores_section (getStandardsMap env) studentReport) (\<lambda>scores.
             Inr (sheets @
                  [studentSheet\<lparr>sheet_rows :=
                     (if logo_loaded env then addLogoHeader Undefined else []) @
                     student_summary_section reportId studentReport @ scores\<rparr>])))))"

definition addStudentSheets ::
  "export_env \<Rightarrow> string \<Rightarrow> worksheet list \<Rightarrow> jsobj \<Rightarrow> js_error + worksheet list" where
  "addStudentSheets env reportId sheets finalData =
     (if isArray (field finalData ''student_reports'')
      then foldM_err (addStudentSheet env reportId) sheets
             (elements (field finalData ''student_reports''))
      else Inr sheets)"

text \<open>
  The rows collected for the aggregate sheet, from the top-level \<^verbatim>\<open>standard_scores\<close>
  (\<^verbatim>\<open>score.id || 'N/A'\<close>, \<^verbatim>\<open>score.score || 0\<close>; a TypeError at an entry that is
  \<^verbatim>\<open>null\<close>), and the sheet, added when there is a row.
\<close>

definition aggregate_row :: "export_env \<Rightarrow> string \<Rightarrow> jsval \<Rightarrow> jsval list" where
  "aggregate_row env reportId score =
     (let sid = js_or (prop_of score ''id'') (Str ''N/A'')
      in [Str reportId, sid, standardDescription (getStandardsMap env) sid,
          js_or (prop_of score ''score'') (Num 0)])"

definition aggregateScoresData :: "export_env \<Rightarrow> string \<Rightarrow> jsobj \<Rightarrow> js_error + jsval list list" where
  "aggregateScoresData env reportId finalData =
     (if isArray (field finalData ''standard_scores'')
      then mapM_err (\<lambda>score. reading score (aggregate_row env reportId))
             (elements (field finalData ''standard_scores''))
      else Inr [])"

definition addAggregateSheet ::
  "export_env \<Rightarrow> string \<Rightarrow> worksheet list \<Rightarrow> jsobj \<Rightarrow> js_error + worksheet list" where
  "addAggregateSheet env reportId sheets finalData =
     bind_err (aggregateScoresData env reportId finalData) (\<lambda>rows.
       if length rows > 0
       then bind_err (addWorksheet env sheets (Str ''Aggregate Standards'')) (\<lambda>aggregateSheet.
              Inr (sheets @
                   [aggregateSheet\<lparr>sheet_rows :=
                      (if logo_loaded env then addLogoHeader Undefined else []) @
                      [[Str ''Report ID'', Str ''Standard ID'', Str ''Standard Description'',
                        Str ''Score'']] @
                      rows\<rparr>]))
       else Inr sheets)"

text \<open>
  What the export does with the document it uses, once the summary sheet is there: the
  summary rows, the students' sheets, the aggregate sheet, the file.
\<close>

definition write_COA_workbook ::
  "export_env \<Rightarrow> worksheet \<Rightarrow> FirestoreDocument \<Rightarrow> js_error + string \<times> workbook" where
  "write_COA_workbook env summarySheet d =
     (let reportId = take 8 (doc_id d)
      in bind_err (addStudentSheets env reportId
                     [summarySheet\<lparr>sheet_rows := summary_rows env d\<rparr>] (data d)) (\<lambda>sheets.
           bind_err (addAggregateSheet env reportId sheets (data d)) (\<lambda>all_sheets.
             write_file env (''COA_Reports_'' @ file_timestamp env @ ''.xlsx'') all_sheets)))"

text \<open>
  \<^verbatim>\<open>exportCOAReportsToExcel(documents)\<close>. \<^verbatim>\<open>sortedDocs[0].data\<close> of an empty array
  would raise a TypeError. The summary sheet is added before the document to use is chosen.
\<close>

definition exportCOAReportsToExcel :: "export_env \<Rightarrow> FirestoreDocument list \<Rightarrow> export_outcome" where
  "exportCOAReportsToExcel env documents =
     (if length documents = 0 then Alerted ''No COA reports to export''
      else
        case sortedDocs env documents of
          [] \<Rightarrow> Threw (type_error ''Cannot read properties of undefined'')
        | latestDoc # rest \<Rightarrow>
            outcome_of
              (bind_err (addWorksheet env [] (Str ''Summary'')) (\<lambda>summarySheet.
                 bind_err (log_first_report (field (data latestDoc) ''student_reports'')) (\<lambda>logged.
                   bind_err (documentToUse (latestDoc # rest) latestDoc) (\<lambda>d.
                     write_COA_workbook env summarySheet d)))))"

subsection \<open>\<^verbatim>\<open>exportSiteReportsToExcel\<close>\<close>

text \<open>
  The time the site export sorts by, of the date
  \<^verbatim>\<open>(d.data.created_at?.toDate ? d.data.created_at.toDate() : null) ||
  (d.createdAt ? new Date(d.createdAt) : new Date(0))\<close>
\<close>

definition siteDate :: "FirestoreDocument \<Rightarrow> int option" where
  "siteDate d =
     (case field (data d) ''created_at'' of
        Timestamp t \<Rightarrow> Some t
      | _ \<Rightarrow> (case createdAt d of Some dt \<Rightarrow> getTime dt | None \<Rightarrow> Some 0))"

text \<open>A value inside a template literal, and \<^verbatim>\<open>xs.join(', ')\<close>.\<close>

definition template_str :: "export_env \<Rightarrow> jsval \<Rightarrow> string" where
  "template_str env v = (case v of Str t \<Rightarrow> t | _ \<Rightarrow> js_String env v)"

fun join_strings :: "string \<Rightarrow> string list \<Rightarrow> string" where
  "join_strings sep [] = []"
| "join_strings sep [x] = x"
| "join_strings sep (x # y # ys) = x @ sep @ join_strings sep (y # ys)"

definition js_join :: "export_env \<Rightarrow> jsval list \<Rightarrow> jsval" where
  "js_join env xs =
     Str (join_strings '', '' (map (\<lambda>v. if nullish v then [] else template_str env v) xs))"

text \<open>
  \<^verbatim>\<open>formatFirestoreDate\<close>; its body is inside a \<^verbatim>\<open>try\<close> whose \<^verbatim>\<open>catch\<close> gives
  \<^verbatim>\<open>'N/A'\<close>, and none of the conversions below throws.
\<close>

definition formatFirestoreDate :: "export_env \<Rightarrow> jsval \<Rightarrow> jsval" where
  "formatFirestoreDate env dateField =
     (if \<not> truthy dateField then Str ''N/A''
      else case dateField of
             Timestamp t \<Rightarrow> Str (toLocaleString env (DateAt t))
           | DateV dt \<Rightarrow> Str (toLocaleString env dt)
           | Str t \<Rightarrow> Str (toLocaleString env (new_Date (date_parse env) (Str t)))
           | v \<Rightarrow> Str (js_String env v))"

text \<open>
  \<^verbatim>\<open>data.analysis_data || data\<close>, \<^verbatim>\<open>analysisData.sites || data.sites || []\<close>,
  \<^verbatim>\<open>analysisData.preceptors || data.preceptors || []\<close> and
  \<^verbatim>\<open>data.report_title || data.title || 'Site Report'\<close>
\<close>

definition analysisData :: "jsobj \<Rightarrow> jsval" where
  "analysisData dat = js_or (field dat ''analysis_data'') (Obj dat)"

definition sites_of :: "jsobj \<Rightarrow> jsval" where
  "sites_of dat = js_or (js_or (prop_of (analysisData dat) ''sites'') (field dat ''sites'')) (Arr [])"

definition preceptors_of :: "jsobj \<Rightarrow> jsval" where
  "preceptors_of dat =
     js_or (js_or (prop_of (analysisData dat) ''preceptors'') (field dat ''preceptors'')) (Arr [])"

definition reportTitle :: "jsobj \<Rightarrow> jsval" where
  "reportTitle dat = js_or (js_or (field dat ''report_title'') (field dat ''title'')) (Str ''Site Report'')"

definition site_summary_rows :: "export_env \<Rightarrow> FirestoreDocument \<Rightarrow> jsval list list" where
  "site_summary_rows env latestDoc =
     (let dat = data latestDoc;
          analysis = analysisData dat
      in (if logo_loaded env then addLogoHeader (reportTitle dat)
          else [[Str (''PrecepGo - '' @ template_str env (reportTitle dat))], []]) @
         [[Str ''Report ID'', Str ''Created Date'', Str ''Generated Date'', Str ''Analyzed Date'',
           Str ''Report Version'', Str ''Total Sites'', Str ''Total Preceptors'',
           Str ''Total Evaluations'', Str ''Total Evaluations Analyzed'', Str ''Agent''],
          [Str (take 8 (doc_id latestDoc)),
           formatFirestoreDate env (js_or (field dat ''created_at'') (date_value (createdAt latestDoc))),
           formatFirestoreDate env (js_or (field dat ''generated_at'') (prop_of analysis ''generated_at'')),
           formatFirestoreDate env (js_or (prop_of analysis ''analyzed_at'') (field dat ''analyzed_at'')),
           js_or (field dat ''report_version'') (Str ''N/A''),
           js_or (js_or (prop_of analysis ''total_sites'') (field dat ''total_sites'')) (Num 0),
           js_or (js_or (prop_of analysis ''total_preceptors'') (field dat ''total_preceptors'')) (Num 0),
           js_or (js_or (prop_of analysis ''total_evaluations'') (field dat ''total_evaluations'')) (Num 0),
           js_or (js_or (field dat ''total_evaluations_analyzed'') (prop_of analysis ''total_evaluations''))
                 (Num 0),
           js_or (field dat ''agent'') (Str ''N/A'')]] @
         (if truthy (field dat ''report_text'')
          then [[], [Str ''Report Text''], [field dat ''report_text'']]
          else []))"

text \<open>
  The row of a site and of a preceptor. Each reads properties of the entry: a TypeError at an
  entry that is \<^verbatim>\<open>null\<close>.
\<close>

definition case_types_cell :: "export_env \<Rightarrow> jsval \<Rightarrow> jsval" where
  "case_types_cell env entry =
     (if isArray (prop_of entry ''case_types'') then js_join env (elements (prop_of entry ''case_types''))
      else js_or (prop_of entry ''case_types'') (Str ''N/A''))"

definition site_row :: "export_env \<Rightarrow> jsval \<Rightarrow> jsval list" where
  "site_row env site =
     [js_or (js_or (prop_of site ''name'') (prop_of site ''site_name'')) (Str ''N/A''),
      js_or (js_or (prop_of site ''total_evaluations'') (prop_of site ''evaluations_count'')) (Num 0),
      js_or (prop_of site ''unique_preceptors'') (Num 0),
      case_types_cell env site,
      (if isArray (prop_of site ''preceptor_names'') then js_join env (elements (prop_of site ''preceptor_names''))
       else if isArray (prop_of site ''preceptors'') then js_join env (elements (prop_of site ''preceptors''))
       else js_or (prop_of site ''preceptors'') (Str ''N/A''))]"

definition preceptor_row :: "export_env \<Rightarrow> jsval \<Rightarrow> jsval list" where
  "preceptor_row env preceptor =
     [js_or (js_or (prop_of preceptor ''name'') (prop_of preceptor ''preceptor_name'')) (Str ''N/A''),
      js_or (js_or (prop_of preceptor ''site'') (prop_of preceptor ''site_name'')) (Str ''N/A''),
      js_or (prop_of preceptor ''student_count'') (Num 0),
      js_or (js_or (prop_of preceptor ''total_evaluations'') (prop_of preceptor ''evaluations_count'')) (Num 0),
      case_types_cell env preceptor]"

definition sites_rows :: "export_env \<Rightarrow> jsobj \<Rightarrow> js_error + jsval list list" where
  "sites_rows env dat =
     bind_err
       (if nonempty_array (sites_of dat)
        then mapM_err (\<lambda>site. reading site (site_row env)) (elements (sites_of dat))
        else Inr [[Str ''No sites data available'', Str [], Str [], Str [], Str []]])
       (\<lambda>rows. Inr ((if logo_loaded env then addLogoHeader (reportTitle dat) else []) @
                     [[Str ''Site Name'', Str ''Total Evaluations'', Str ''Unique Preceptors'',
                       Str ''Case Types'', Str ''Preceptor Names'']] @
                     rows))"

definition preceptors_rows :: "export_env \<Rightarrow> jsobj \<Rightarrow> js_error + jsval list list" where
  "preceptors_rows env dat =
     bind_err
       (if nonempty_array (preceptors_of dat)
        then mapM_err (\<lambda>preceptor. reading preceptor (preceptor_row env)) (elements (preceptors_of dat))
        else Inr [[Str ''No preceptors data available'', Str [], Str [], Str [], Str []]])
       (\<lambda>rows. Inr ((if logo_loaded env then addLogoHeader (reportTitle dat) else []) @
                     [[Str ''Preceptor Name'', Str ''Site'', Str ''Student Count'',
                       Str ''Total Evaluations'', Str ''Case Types'']] @
                     rows))"

text \<open>
  \<^verbatim>\<open>exportSiteReportsToExcel(documents)\<close>: the three sheets are added one after the other,
  each filled before the next is added.
\<close>

definition exportSiteReportsToExcel :: "export_env \<Rightarrow> FirestoreDocument list \<Rightarrow> export_outcome" where
  "exportSiteReportsToExcel env documents =
     (if length documents = 0
      then Alerted ''No site reports available to export. Please generate some reports first.''
      else
        case js_sort (\<lambda>a b. num_sub (siteDate b) (siteDate a)) documents of
          [] \<Rightarrow> Threw (type_error ''Cannot read properties of undefined'')
        | latestDoc # rest \<Rightarrow>
            outcome_of
              (bind_err (addWorksheet env [] (Str ''Summary'')) (\<lambda>summarySheet.
                 let sheets1 = [summarySheet\<lparr>sheet_rows := site_summary_rows env latestDoc\<rparr>]
                 in bind_err (addWorksheet env sheets1 (Str ''Sites'')) (\<lambda>sitesSheet.
                      bind_err (sites_rows env (data latestDoc)) (\<lambda>rows2.
                        let sheets2 = sheets1 @ [sitesSheet\<lparr>sheet_rows := rows2\<rparr>]
                        in bind_err (addWorksheet env sheets2 (Str ''Preceptors'')) (\<lambda>preceptorsSheet.
                             bind_err (preceptors_rows env (data latestDoc)) (\<lambda>rows3.
                               write_file env (''Site_Report_'' @ file_timestamp env @ ''.xlsx'')
                                 (sheets2 @ [preceptorsSheet\<lparr>sheet_rows := rows3\<rparr>]))))))))"

subsection \<open>\<^verbatim>\<open>exportToExcel\<close>\<close>

text \<open>
  \<^verbatim>\<open>s.replace(pat, rep)\<close> with a string pattern replaces the first occurrence;
  \<^verbatim>\<open>s.toUpperCase()\<close> on ASCII text.
\<close>

fun replace_first :: "string \<Rightarrow> string \<Rightarrow> string \<Rightarrow> string" where
  "replace_first pat rep [] = (if pat = [] then rep else [])"
| "replace_first pat rep (c # cs) =
     (if startsWith (c # cs) pat then rep @ drop (length pat) (c # cs)
      else c # replace_first pat rep cs)"

definition upper_char :: "char \<Rightarrow> char" where
  "upper_char c =
     (case map_of (zip ''abcdefghijklmnopqrstuvwxyz'' ''ABCDEFGHIJKLMNOPQRSTUVWXYZ'') c of
        Some l \<Rightarrow> l
      | None \<Rightarrow> c)"

definition toUpperCase :: "string \<Rightarrow> string" where
  "toUpperCase s = map upper_char s"

text \<open>The value written into a row for a field of the document.\<close>

definition flatten_value :: "export_env \<Rightarrow> jsval \<Rightarrow> jsval" where
  "flatten_value env v =
     (if nullish v then Str ''N/A''
      else case v of
             Obj fs \<Rightarrow> Str (JSON_stringify env v)
           | Timestamp t \<Rightarrow> Str (JSON_stringify env v)
           | Arr xs \<Rightarrow> if length xs > 0 then Str (JSON_stringify env v) else Str ''[]''
           | _ \<Rightarrow> v)"

definition export_row :: "export_env \<Rightarrow> FirestoreDocument \<Rightarrow> jsobj" where
  "export_row env d =
     assign [(''ID'', Str (doc_id d)), (''Created Date'', created_date_cell env d)]
            (map (\<lambda>(k, v). (k, flatten_value env v)) (data d))"

definition generic_rows :: "export_env \<Rightarrow> string \<Rightarrow> FirestoreDocument \<Rightarrow> FirestoreDocument list \<Rightarrow> jsval list list" where
  "generic_rows env collectionName first_doc documents =
     (if logo_loaded env then addLogoHeader Undefined
      else [[Str (''PrecepGo - '' @
                  toUpperCase (map (\<lambda>c. if c = CHR ''_'' then CHR '' '' else c)
                                   (replace_first ''agent_'' [] collectionName)))], []]) @
     [map (\<lambda>(k, v). Str k) (export_row env first_doc)] @
     map (\<lambda>d. map snd (export_row env d)) documents"

text \<open>
  \<^verbatim>\<open>exportToExcel(documents, collectionName)\<close>: the sheet is named by the collection
  name without its first \<^verbatim>\<open>agent_\<close>.
\<close>

definition exportToExcel :: "export_env \<Rightarrow> FirestoreDocument list \<Rightarrow> string \<Rightarrow> export_outcome" where
  "exportToExcel env documents collectionName =
     (case documents of
        [] \<Rightarrow> Alerted (''No '' @ collectionName @ '' documents to export'')
      | first_doc # rest \<Rightarrow>
          outcome_of
            (bind_err (addWorksheet env [] (Str (replace_first ''agent_'' [] collectionName))) (\<lambda>worksheet.
               write_file env (collectionName @ ''_'' @ file_timestamp env @ ''.xlsx'')
                 [worksheet\<lparr>sheet_rows := generic_rows env collectionName first_doc documents\<rparr>])))"

section \<open>Vocabulary of the properties and example inputs\<close>


definition not_before :: "int option \<Rightarrow> int option \<Rightarrow> bool" where
  "not_before a b = (case (a, b) of (Some x, Some y) \<Rightarrow> y \<le> x | _ \<Rightarrow> False)"




text \<open>Example inputs: a dashboard, a network that gives one answer, three responses.\<close>

definition evaluation_agent :: agent where
  "evaluation_agent = \<lparr>agent_name = ''Evaluation Agent'', apiName = ''evaluation_agent''\<rparr>"

definition dashboard :: "jsobj \<Rightarrow> app_state" where
  "dashboard states =
     \<lparr>automatedMode = False, isInitialLoad = False, agentFirestoreStates = states,
      loading = None, alerts = [], timers = []\<rparr>"

definition idle_states :: jsobj where
  "idle_states =
     [(''evaluation_agent'', listener_entry (Str ''idle'') Undefined),
      (''scenario_agent'', listener_entry (Str ''active'') Undefined)]"







text \<open>
  Example snapshots. No string is parsed in them: the parsing of the example engine gives the
  invalid date.
\<close>

definition no_conv :: "jsval \<Rightarrow> jsdate" where
  "no_conv v = InvalidDate"









text \<open>The calls of \<^verbatim>\<open>onError\<close> among the events of a listener, and the errors logged.\<close>

fun onError_calls :: "listener_event list \<Rightarrow> js_error list" where
  "onError_calls [] = []"
| "onError_calls (CallOnError e # es) = e # onError_calls es"
| "onError_calls (x # es) = onError_calls es"

fun logged_errors :: "listener_event list \<Rightarrow> js_error list" where
  "logged_errors [] = []"
| "logged_errors (LogError msg e # es) = e # logged_errors es"
| "logged_errors (x # es) = logged_errors es"

text \<open>
  Example callers and SDKs of a listener: a callback and an \<^verbatim>\<open>onError\<close> that return, an
  \<^verbatim>\<open>onError\<close> that throws, an SDK that subscribes and one whose setup throws.
\<close>

definition quiet_callback :: callback where
  "quiet_callback documents = None"

definition quiet_onError :: error_callback where
  "quiet_onError e = None"

definition throwing_onError :: error_callback where
  "throwing_onError e = Some (type_error ''setAlerts is not a function'')"

definition subscribing_sdk :: sdk where
  "subscribing_sdk q obs = Inr 7"

definition failing_sdk :: "js_error \<Rightarrow> sdk" where
  "failing_sdk e q obs = Inl e"

definition permission_denied :: js_error where
  "permission_denied =
     \<lparr>err_name = ''FirebaseError'', err_code = Some ''permission-denied'',
      err_message = ''Missing or insufficient permissions.''\<rparr>"

definition unavailable :: js_error where
  "unavailable =
     \<lparr>err_name = ''FirebaseError'', err_code = Some ''unavailable'',
      err_message = ''The service is currently unavailable.''\<rparr>"

text \<open>An export that ended with a download.\<close>

fun is_download :: "export_outcome \<Rightarrow> bool" where
  "is_download (Downloaded file_name wb) = True"
| "is_download other = False"

text \<open>
  The vocabulary of the selection of C5. A student report lacks scores when its
  \<^verbatim>\<open>standard_scores\<close> is empty or missing; a document has scores when some entry of its
  \<^verbatim>\<open>student_reports\<close> has a non-empty \<^verbatim>\<open>standard_scores\<close>. As C5 words it, the search for a
  document with scores starts when every entry of the latest report's \<^verbatim>\<open>student_reports\<close>
  lacks scores.
\<close>

definition lacks_scores :: "jsval \<Rightarrow> bool" where
  "lacks_scores studentReport = (\<not> nonempty_array (prop_of studentReport ''standard_scores''))"

definition with_scores :: "FirestoreDocument \<Rightarrow> bool" where
  "with_scores d =
     list_ex (\<lambda>sr. nonempty_array (prop_of sr ''standard_scores''))
       (elements (field (data d) ''student_reports''))"

definition claimed_documentToUse ::
  "FirestoreDocument list \<Rightarrow> FirestoreDocument \<Rightarrow> FirestoreDocument" where
  "claimed_documentToUse sortedList latestDoc =
     (if list_all lacks_scores (elements (field (data latestDoc) ''student_reports''))
      then (case find with_scores sortedList of Some d \<Rightarrow> d | None \<Rightarrow> latestDoc)
      else latestDoc)"






text \<open>
  An example environment of the export. Its library refuses a sheet name that is not a
  string, is empty, has one of the characters \<^verbatim>\<open>* ? : / [ ]\<close> or a backslash, or is the name of a
  sheet of the workbook.
\<close>

definition time_string :: "jsdate \<Rightarrow> string" where
  "time_string d = (case d of DateAt t \<Rightarrow> show_nat (nat t) | InvalidDate \<Rightarrow> ''Invalid Date'')"

definition plain_String :: "jsval \<Rightarrow> string" where
  "plain_String v = (case v of Num n \<Rightarrow> show_nat (nat n) | _ \<Rightarrow> ''[object Object]'')"

definition no_Number :: "jsval \<Rightarrow> int option" where
  "no_Number v = None"

definition illegal_char :: "char \<Rightarrow> bool" where
  "illegal_char c = (c \<in> set (''*?:/[]'' @ [CHR 0x5C]))"

definition strict_addWorksheet :: "jsval list \<Rightarrow> jsval \<Rightarrow> js_error option" where
  "strict_addWorksheet names name =
     (case name of
        Str n \<Rightarrow>
          if n = [] then Some (new_Error ''The name cannot be empty.'')
          else if list_ex illegal_char n
          then Some (new_Error (''Worksheet name '' @ n @ '' cannot include any of the following characters''))
          else if name \<in> set names then Some (new_Error (''Worksheet name already exists: '' @ n))
          else None
      | _ \<Rightarrow> Some (new_Error ''The name has to be a string.''))"

definition always_written :: "workbook \<Rightarrow> js_error option" where
  "always_written wb = None"

definition example_export_env :: export_env where
  "example_export_env =
     \<lparr>logo_loaded = False, now_ISO = ''2025-01-02T03:04:05.678Z'',
      standards = [(''S1'', ''Patient safety'')], toLocaleString = time_string,
      date_parse = no_conv, js_String = plain_String, js_Number = no_Number,
      JSON_stringify = plain_String, library_addWorksheet = strict_addWorksheet,
      library_writeBuffer = always_written\<rparr>"



text \<open>
  Example documents: three reports of different dates, a report whose \<^verbatim>\<open>student_reports\<close>
  holds \<^verbatim>\<open>null\<close>, and a report of a student without a name.
\<close>

definition report_empty :: FirestoreDocument where
  "report_empty =
     \<lparr>doc_id = ''report-new-0001'', data = [(''student_reports'', Arr [])],
      createdAt = Some (DateAt 30), updatedAt = None\<rparr>"

definition report_without_scores :: FirestoreDocument where
  "report_without_scores =
     \<lparr>doc_id = ''report-mid-0001'',
      data = [(''student_reports'',
               Arr [Obj [(''student_name'', Str ''Bartholomew Maximilian Featherstonehaugh''),
                         (''standard_scores'', Arr [])]])],
      createdAt = Some (DateAt 20), updatedAt = None\<rparr>"

definition report_with_scores :: FirestoreDocument where
  "report_with_scores =
     \<lparr>doc_id = ''report-old-0001'',
      data = [(''student_reports'',
               Arr [Obj [(''student_name'', Str ''Ada Lovelace''),
                         (''standard_scores'',
                          Arr [Obj [(''id'', Str ''S1''), (''score'', Num 4)]])]]),
              (''standard_scores'', Arr [Obj [(''standard_id'', Str ''S1''), (''value'', Num 3)]])],
      createdAt = Some (DateAt 10), updatedAt = None\<rparr>"






section \<open>Properties\<close>

subsection \<open>Objects and sorting\<close>

lemma map_of_assign: "map_of (assign acc fs) = map_of acc ++ map_of (rev fs)"
proof (induction fs arbitrary: acc)
  case Nil
  show ?case by (simp add: assign_def)
next
  case (Cons p fs)
  obtain k v where p: "p = (k, v)" by (cases p)
  have "assign acc (p # fs) = assign (AList.update k v acc) fs"
    by (simp add: assign_def p)
  then show ?case
    using Cons.IH [of "AList.update k v acc"]
    by (simp add: p update_conv' map_add_def fun_eq_iff split: option.splits)
qed

lemma map_of_rev_distinct: "distinct (map fst xs) \<Longrightarrow> map_of (rev xs) = map_of xs"
proof (induction xs)
  case Nil
  show ?case by simp
next
  case (Cons x xs)
  then have "fst x \<notin> dom (map_of (rev xs))"
    by (simp add: dom_map_of_conv_image_fst)
  with Cons show ?case
    by (cases x) (auto simp: map_add_def fun_eq_iff dom_def split: option.splits)
qed

lemma distinct_assign: "distinct (map fst acc) \<Longrightarrow> distinct (map fst (assign acc fs))"
proof (induction fs arbitrary: acc)
  case Nil
  then show ?case by (simp add: assign_def)
next
  case (Cons p fs)
  obtain k v where p: "p = (k, v)" by (cases p)
  have "assign acc (p # fs) = assign (AList.update k v acc) fs"
    by (simp add: assign_def p)
  with Cons show ?case by (simp add: distinct_update)
qed

lemma field_assign:
  "field (assign acc fs) k = (case map_of (rev fs) k of Some v \<Rightarrow> v | None \<Rightarrow> field acc k)"
  by (simp add: field_def map_of_assign map_add_def split: option.splits)

lemma field_assign_empty: "distinct (map fst fs) \<Longrightarrow> field (assign [] fs) k = field fs k"
  by (simp add: field_def map_of_assign map_of_rev_distinct)

lemma field_update_other: "k' \<noteq> k \<Longrightarrow> field (AList.update k v fs) k' = field fs k'"
  by (simp add: field_def update_conv')

lemma mset_insort_cmp: "mset (insort_cmp cmp x ys) = add_mset x (mset ys)"
  by (induction ys) auto

lemma mset_js_sort: "mset (js_sort cmp xs) = mset xs"
  unfolding js_sort_def by (induction xs) (auto simp: mset_insort_cmp)

lemma set_js_sort: "set (js_sort cmp xs) = set xs"
  using mset_js_sort [of cmp xs] by (metis set_mset_mset)

lemma length_js_sort: "length (js_sort cmp xs) = length xs"
  using mset_js_sort [of cmp xs] by (metis size_mset)

lemma set_insort_cmp: "set (insort_cmp cmp x ys) = insert x (set ys)"
  using mset_insort_cmp [of cmp x ys] by (metis set_mset_add_mset_insert set_mset_mset)

lemma insort_cmp_cong:
  "(\<And>y. y \<in> set ys \<Longrightarrow> cmp x y = cmp' x y) \<Longrightarrow> insort_cmp cmp x ys = insort_cmp cmp' x ys"
  by (induction ys) auto

lemma js_sort_cong:
  "(\<And>x y. x \<in> set xs \<Longrightarrow> y \<in> set xs \<Longrightarrow> cmp x y = cmp' x y) \<Longrightarrow>
   js_sort cmp xs = js_sort cmp' xs"
proof (induction xs)
  case Nil
  show ?case by (simp add: js_sort_def)
next
  case (Cons x xs)
  have ih: "js_sort cmp xs = js_sort cmp' xs"
    by (rule Cons.IH) (simp add: Cons.prems)
  have "insort_cmp cmp x (js_sort cmp' xs) = insort_cmp cmp' x (js_sort cmp' xs)"
    by (rule insort_cmp_cong) (simp add: set_js_sort Cons.prems)
  with ih show ?case by (simp add: js_sort_def)
qed

text \<open>
  A comparator \<^verbatim>\<open>(a, b) => key(b) - key(a)\<close> sorts in descending order of the key, when
  no key is \<^verbatim>\<open>NaN\<close>.
\<close>

lemma sorted_insort_desc:
  "sorted_wrt (\<lambda>a b. key b \<le> key a) ys \<Longrightarrow>
   sorted_wrt (\<lambda>a b. (key b :: int) \<le> key a) (insort_cmp (\<lambda>a b. Some (key b - key a)) x ys)"
  by (induction ys) (auto simp: set_insort_cmp follows_def)

lemma sorted_js_sort_desc:
  "sorted_wrt (\<lambda>a b. (key b :: int) \<le> key a) (js_sort (\<lambda>a b. Some (key b - key a)) xs)"
  unfolding js_sort_def by (induction xs) (auto intro: sorted_insort_desc)

lemma sorted_wrt_on_set:
  "sorted_wrt P xs \<Longrightarrow> (\<And>x y. x \<in> set xs \<Longrightarrow> y \<in> set xs \<Longrightarrow> P x y \<Longrightarrow> Q x y) \<Longrightarrow>
   sorted_wrt Q xs"
  by (induction xs) auto

lemma sorted_js_sort_valid:
  assumes "\<forall>x\<in>set xs. key x \<noteq> None"
  shows "sorted_wrt (\<lambda>a b. not_before (key a) (key b))
           (js_sort (\<lambda>a b. num_sub (key b) (key a)) xs)"
proof -
  define k where "k x = (case key x of Some t \<Rightarrow> t | None \<Rightarrow> 0)" for x
  have key: "key x = Some (k x)" if "x \<in> set xs" for x
    using assms that by (auto simp: k_def)
  have "js_sort (\<lambda>a b. num_sub (key b) (key a)) xs = js_sort (\<lambda>a b. Some (k b - k a)) xs"
    by (rule js_sort_cong) (simp add: key)
  moreover have "sorted_wrt (\<lambda>a b. not_before (key a) (key b)) (js_sort (\<lambda>a b. Some (k b - k a)) xs)"
    by (rule sorted_wrt_on_set [OF sorted_js_sort_desc [of k xs]])
       (simp add: set_js_sort key not_before_def)
  ultimately show ?thesis by simp
qed

lemma js_sort_nonempty: "xs \<noteq> [] \<Longrightarrow> \<exists>y ys. js_sort cmp xs = y # ys"
  using length_js_sort [of cmp xs] by (cases "js_sort cmp xs") auto


lemma some_err_reading:
  "list_all (\<lambda>x. \<not> nullish x) xs \<Longrightarrow> some_err (\<lambda>x. reading x P) xs = Inr (list_ex P xs)"
  by (induction xs) (auto simp: reading_def bind_err_def)

lemma find_err_pure:
  "(\<And>x. x \<in> set xs \<Longrightarrow> f x = Inr (P x)) \<Longrightarrow> find_err f xs = Inr (find P xs)"
  by (induction xs) (auto simp: bind_err_def)

subsection \<open>The optimistic update of \<^verbatim>\<open>handleAgentAction\<close>\<close>

lemma prop_of_revert_entry:
  "prop_of (revert_entry prev) k =
     (case map_of (rev (own_properties prev)) k of Some v \<Rightarrow> v
      | None \<Rightarrow> if k \<in> {''state'', ''status'', ''agent_state''} then Str ''idle'' else Undefined)"
  by (simp add: revert_entry_def spread_def field_assign) (auto simp: field_def split: option.splits)

text \<open>
  The revert writes its three fields first and the fields of the entry over them, and an
  entry that went through the optimistic update has all three: the revert leaves it as it is.
\<close>

lemma revert_keeps_optimistic_fields:
  "prop_of (revert_entry (optimistic_entry prev)) k = prop_of (optimistic_entry prev) k"
proof -
  define xs where "xs = assign [(''state'', Str ''active''), (''status'', Str ''active''),
                  (''agent_state'', Str ''active'')] (own_properties prev)"
  have d: "distinct (map fst xs)"
    unfolding xs_def by (rule distinct_assign) simp
  have o: "optimistic_entry prev = Obj xs"
    by (simp add: optimistic_entry_def spread_def xs_def)
  have m: "map_of xs k \<noteq> None" if "k \<in> {''state'', ''status'', ''agent_state''}" for k
    using that unfolding xs_def by (auto simp: map_of_assign)
  show ?thesis
    using m [of k]
    by (auto simp: o prop_of_revert_entry map_of_rev_distinct [OF d] field_def split: option.splits)
qed

lemma revert_after_optimistic_shown:
  "firestoreStateValue (revert_entry (optimistic_entry prev)) =
   firestoreStateValue (optimistic_entry prev)"
  by (simp add: firestoreStateValue_def revert_keeps_optimistic_fields)

text \<open>The entries of the other agents are not touched.\<close>

lemma field_optimistic_update_other:
  "k' \<noteq> k \<Longrightarrow> distinct (map fst s) \<Longrightarrow> field (optimistic_update k s) k' = field s k'"
  by (simp add: optimistic_update_def field_update_other field_assign_empty)

lemma field_revert_update_other:
  "k' \<noteq> k \<Longrightarrow> distinct (map fst s) \<Longrightarrow> field (revert_update k s) k' = field s k'"
  by (simp add: revert_update_def field_update_other field_assign_empty)

lemma distinct_optimistic_update: "distinct (map fst (optimistic_update k s))"
  by (simp add: optimistic_update_def distinct_update distinct_assign)

lemma other_agents_unchanged:
  assumes "k' \<noteq> apiName a" and "distinct (map fst (agentFirestoreStates st))"
  shows "field (agentFirestoreStates (handleAgentAction a outcome id st)) k' =
         field (agentFirestoreStates st) k'"
  using assms
  by (auto simp: handleAgentAction_def Let_def on_action_error_def on_action_failed_def
        field_optimistic_update_other field_revert_update_other distinct_optimistic_update
        split: action_outcome.splits)

text \<open>
  C1. The claim: with automated mode off, the optimistic update sets the agent's entry to the
  active state, and a failed action rolls it back to idle. The code writes the previous
  fields of the entry over the new ones. At the entry the \<^verbatim>\<open>all_states\<close> listener stores for
  an idle agent, the entry still reads idle after the optimistic update (and after a
  successful action); at a dashboard without an entry for the agent, the entry still reads
  active after the action has thrown and the revert has run.
\<close>

theorem handleAgentAction_previous_fields_win:
  "firestoreStateValue (field (optimistic_update ''evaluation_agent'' idle_states) ''evaluation_agent'')
     = Str ''idle'' \<and>
   \<not> isActiveFromFirestore
        (field (agentFirestoreStates
                  (handleAgentAction evaluation_agent (Resolves (Obj [(''ok'', Bool True)])) id
                     (dashboard idle_states)))
               ''evaluation_agent'') \<and>
   isActiveFromFirestore
        (field (agentFirestoreStates
                  (handleAgentAction evaluation_agent (Throws (new_Error ''Failed'')) id (dashboard [])))
               ''evaluation_agent'') \<and>
   \<not> isIdleFromFirestore
        (field (agentFirestoreStates
                  (handleAgentAction evaluation_agent (Resolves (Obj [(''ok'', Bool False)])) id
                     (dashboard [])))
               ''evaluation_agent'')"
  by (simp add: evaluation_agent_def dashboard_def idle_states_def handleAgentAction_def
        on_action_error_def on_action_failed_def revert_update_def revert_entry_def new_Error_def
        optimistic_update_def optimistic_entry_def listener_entry_def field_def assign_def
        spread_def js_or_def nullish_def isActiveFromFirestore_def isIdleFromFirestore_def
        normalizedFirestoreState_def firestoreStateValue_def toLowerCase_def lower_char_def)

subsection \<open>The REST helper\<close>















subsection \<open>The order of the documents of the Firestore service\<close>













subsection \<open>Field lookups\<close>




subsection \<open>The documents of the Firestore service\<close>







subsection \<open>Listeners\<close>

text \<open>
  C9, as amended. \<^verbatim>\<open>listenToCollection\<close> hands the SDK the query of the collection (limit
  50 unless given) and its two functions. When the SDK subscribes, the listener returns the
  unsubscribe function of the SDK and reports no error. When the setup throws, the error is
  logged and passed to \<^verbatim>\<open>onError\<close> if there is one, and the function that does nothing is
  returned, unless \<^verbatim>\<open>onError\<close> itself throws: what it throws is thrown to the caller, and
  nothing else ever is. A subscription error is logged and passed to \<^verbatim>\<open>onError\<close> if there is
  one, a \<^verbatim>\<open>permission-denied\<close> error replaced by a new error with the message
  \<^verbatim>\<open>Permission denied: Check Firestore security rules for collection '<name>'. See
  FIRESTORE_RULES_FIX.md for instructions.\<close>; what \<^verbatim>\<open>onError\<close> throws there is thrown into the
  SDK. The four wrappers are \<^verbatim>\<open>listenToCollection\<close> at their collection with limit 20 unless
  given, and \<^verbatim>\<open>listenToScenarios\<close> does the same on its own query.
\<close>

theorem listeners_throw_only_from_onError:
  "(let q = \<lparr>q_collection = collectionName, q_orderBy = None,
             q_limit = (case limitCount of None \<Rightarrow> 50 | Some n \<Rightarrow> n)\<rparr>;
        obs = \<lparr>obs_next = collection_on_snapshot conv collectionName callback,
               obs_error = collection_on_error collectionName onError\<rparr>;
        run = listenToCollection conv onSnapshot collectionName callback onError limitCount
    in (\<forall>u. onSnapshot q obs = Inr u \<longrightarrow>
             snd run = Inr (SdkUnsubscribe u) \<and> logged_errors (fst run) = [] \<and>
             onError_calls (fst run) = []) \<and>
       (\<forall>e. onSnapshot q obs = Inl e \<longrightarrow>
             logged_errors (fst run) = [e] \<and>
             (case onError of
                None \<Rightarrow> onError_calls (fst run) = [] \<and> snd run = Inr NoOp
              | Some f \<Rightarrow>
                  onError_calls (fst run) = [e] \<and>
                  snd run = (case f e of None \<Rightarrow> Inr NoOp | Some thrown \<Rightarrow> Inl thrown)))) \<and>
   (let reported =
          (if err_code err = Some ''permission-denied''
           then new_Error (''Permission denied: Check Firestore security rules for collection '' @
                           [CHR 0x27] @ collectionName @ [CHR 0x27] @
                           ''. See FIRESTORE_RULES_FIX.md for instructions.'')
           else err);
        handled = collection_on_error collectionName onError err
    in logged_errors (fst handled) = [err] \<and>
       (case onError of
          None \<Rightarrow> onError_calls (fst handled) = [] \<and> snd handled = None
        | Some f \<Rightarrow> onError_calls (fst handled) = [reported] \<and> snd handled = f reported)) \<and>
   listenToEvaluations conv onSnapshot callback onError limitCount =
     listenToCollection conv onSnapshot ''agent_evaluations'' callback onError
       (Some (case limitCount of None \<Rightarrow> 20 | Some n \<Rightarrow> n)) \<and>
   listenToNotifications conv onSnapshot callback onError limitCount =
     listenToCollection conv onSnapshot ''agent_notifications'' callback onError
       (Some (case limitCount of None \<Rightarrow> 20 | Some n \<Rightarrow> n)) \<and>
   listenToCOAReports conv onSnapshot callback onError limitCount =
     listenToCollection conv onSnapshot ''agent_coa_reports'' callback onError
       (Some (case limitCount of None \<Rightarrow> 20 | Some n \<Rightarrow> n)) \<and>
   listenToSiteReports conv onSnapshot callback onError limitCount =
     listenToCollection conv onSnapshot ''agent_sites'' callback onError
       (Some (case limitCount of None \<Rightarrow> 20 | Some n \<Rightarrow> n)) \<and>
   (let q = \<lparr>q_collection = ''agent_scenarios'', q_orderBy = Some (''created_at'', ''desc''),
             q_limit = (case limitCount of None \<Rightarrow> 10 | Some n \<Rightarrow> n)\<rparr>;
        obs = \<lparr>obs_next = scenarios_on_snapshot conv callback,
               obs_error = scenarios_on_error onError\<rparr>;
        run = listenToScenarios conv onSnapshot callback onError limitCount
    in (\<forall>u. onSnapshot q obs = Inr u \<longrightarrow>
             snd run = Inr (SdkUnsubscribe u) \<and> logged_errors (fst run) = [] \<and>
             onError_calls (fst run) = []) \<and>
       (\<forall>e. onSnapshot q obs = Inl e \<longrightarrow>
             logged_errors (fst run) = [e] \<and>
             (case onError of
                None \<Rightarrow> onError_calls (fst run) = [] \<and> snd run = Inr NoOp
              | Some f \<Rightarrow>
                  onError_calls (fst run) = [e] \<and>
                  snd run = (case f e of None \<Rightarrow> Inr NoOp | Some thrown \<Rightarrow> Inl thrown)))) \<and>
   (let reported =
          (if err_code err = Some ''permission-denied''
           then new_Error (''Permission denied: Check Firestore security rules for collection '' @
                           [CHR 0x27] @ ''agent_scenarios'' @ [CHR 0x27] @
                           ''. See FIRESTORE_RULES_FIX.md for instructions.'')
           else err);
        handled = scenarios_on_error onError err
    in logged_errors (fst handled) = [err] \<and>
       (case onError of
          None \<Rightarrow> onError_calls (fst handled) = [] \<and> snd handled = None
        | Some f \<Rightarrow> onError_calls (fst handled) = [reported] \<and> snd handled = f reported))"
proof -
  have subscription:
    "(\<forall>u. onSnapshot
            \<lparr>q_collection = collectionName, q_orderBy = None,
               q_limit = (case limitCount of None \<Rightarrow> 50 | Some n \<Rightarrow> n)\<rparr>
            \<lparr>obs_next = collection_on_snapshot conv collectionName callback,
               obs_error = collection_on_error collectionName onError\<rparr> = Inr u \<longrightarrow>
          snd (listenToCollection conv onSnapshot collectionName callback onError limitCount)
            = Inr (SdkUnsubscribe u) \<and>
          logged_errors (fst (listenToCollection conv onSnapshot collectionName callback onError limitCount)) = [] \<and>
          onError_calls (fst (listenToCollection conv onSnapshot collectionName callback onError limitCount)) = []) \<and>
     (\<forall>e. onSnapshot
            \<lparr>q_collection = collectionName, q_orderBy = None,
               q_limit = (case limitCount of None \<Rightarrow> 50 | Some n \<Rightarrow> n)\<rparr>
            \<lparr>obs_next = collection_on_snapshot conv collectionName callback,
               obs_error = collection_on_error collectionName onError\<rparr> = Inl e \<longrightarrow>
          logged_errors (fst (listenToCollection conv onSnapshot collectionName callback onError limitCount)) = [e] \<and>
          (case onError of
             None \<Rightarrow>
               onError_calls (fst (listenToCollection conv onSnapshot collectionName callback onError limitCount)) = [] \<and>
               snd (listenToCollection conv onSnapshot collectionName callback onError limitCount) = Inr NoOp
           | Some f \<Rightarrow>
               onError_calls (fst (listenToCollection conv onSnapshot collectionName callback onError limitCount)) = [e] \<and>
               snd (listenToCollection conv onSnapshot collectionName callback onError limitCount)
                 = (case f e of None \<Rightarrow> Inr NoOp | Some thrown \<Rightarrow> Inl thrown)))"
    by (simp add: listenToCollection_def call_onError_def Let_def split: option.splits)
  have handler:
    "logged_errors (fst (collection_on_error collectionName onError err)) = [err] \<and>
     (case onError of
        None \<Rightarrow> onError_calls (fst (collection_on_error collectionName onError err)) = [] \<and>
                snd (collection_on_error collectionName onError err) = None
      | Some f \<Rightarrow>
          onError_calls (fst (collection_on_error collectionName onError err))
            = [if err_code err = Some ''permission-denied''
               then new_Error (''Permission denied: Check Firestore security rules for collection '' @
                               [CHR 0x27] @ collectionName @ [CHR 0x27] @
                               ''. See FIRESTORE_RULES_FIX.md for instructions.'')
               else err] \<and>
          snd (collection_on_error collectionName onError err)
            = f (if err_code err = Some ''permission-denied''
                 then new_Error (''Permission denied: Check Firestore security rules for collection '' @
                                 [CHR 0x27] @ collectionName @ [CHR 0x27] @
                                 ''. See FIRESTORE_RULES_FIX.md for instructions.'')
                 else err))"
    by (simp add: collection_on_error_def call_onError_def permission_denied_message_def Let_def
          split: option.splits)
  have wrappers:
    "listenToEvaluations conv onSnapshot callback onError limitCount =
       listenToCollection conv onSnapshot ''agent_evaluations'' callback onError
         (Some (case limitCount of None \<Rightarrow> 20 | Some n \<Rightarrow> n))"
    "listenToNotifications conv onSnapshot callback onError limitCount =
       listenToCollection conv onSnapshot ''agent_notifications'' callback onError
         (Some (case limitCount of None \<Rightarrow> 20 | Some n \<Rightarrow> n))"
    "listenToCOAReports conv onSnapshot callback onError limitCount =
       listenToCollection conv onSnapshot ''agent_coa_reports'' callback onError
         (Some (case limitCount of None \<Rightarrow> 20 | Some n \<Rightarrow> n))"
    "listenToSiteReports conv onSnapshot callback onError limitCount =
       listenToCollection conv onSnapshot ''agent_sites'' callback onError
         (Some (case limitCount of None \<Rightarrow> 20 | Some n \<Rightarrow> n))"
    by (simp_all only: listenToEvaluations_def listenToNotifications_def listenToCOAReports_def
          listenToSiteReports_def default_20_def)
  have scenarios:
    "(\<forall>u. onSnapshot
            \<lparr>q_collection = ''agent_scenarios'', q_orderBy = Some (''created_at'', ''desc''),
               q_limit = (case limitCount of None \<Rightarrow> 10 | Some n \<Rightarrow> n)\<rparr>
            \<lparr>obs_next = scenarios_on_snapshot conv callback,
               obs_error = scenarios_on_error onError\<rparr> = Inr u \<longrightarrow>
          snd (listenToScenarios conv onSnapshot callback onError limitCount)
            = Inr (SdkUnsubscribe u) \<and>
          logged_errors (fst (listenToScenarios conv onSnapshot callback onError limitCount)) = [] \<and>
          onError_calls (fst (listenToScenarios conv onSnapshot callback onError limitCount)) = []) \<and>
     (\<forall>e. onSnapshot
            \<lparr>q_collection = ''agent_scenarios'', q_orderBy = Some (''created_at'', ''desc''),
               q_limit = (case limitCount of None \<Rightarrow> 10 | Some n \<Rightarrow> n)\<rparr>
            \<lparr>obs_next = scenarios_on_snapshot conv callback,
               obs_error = scenarios_on_error onError\<rparr> = Inl e \<longrightarrow>
          logged_errors (fst (listenToScenarios conv onSnapshot callback onError limitCount)) = [e] \<and>
          (case onError of
             None \<Rightarrow>
               onError_calls (fst (listenToScenarios conv onSnapshot callback onError limitCount)) = [] \<and>
               snd (listenToScenarios conv onSnapshot callback onError limitCount) = Inr NoOp
           | Some f \<Rightarrow>
               onError_calls (fst (listenToScenarios conv onSnapshot callback onError limitCount)) = [e] \<and>
               snd (listenToScenarios conv onSnapshot callback onError limitCount)
                 = (case f e of None \<Rightarrow> Inr NoOp | Some thrown \<Rightarrow> Inl thrown)))"
    by (simp add: listenToScenarios_def call_onError_def Let_def split: option.splits)
  have scenarios_handler:
    "logged_errors (fst (scenarios_on_error onError err)) = [err] \<and>
     (case onError of
        None \<Rightarrow> onError_calls (fst (scenarios_on_error onError err)) = [] \<and>
                snd (scenarios_on_error onError err) = None
      | Some f \<Rightarrow>
          onError_calls (fst (scenarios_on_error onError err))
            = [if err_code err = Some ''permission-denied''
               then new_Error (''Permission denied: Check Firestore security rules for collection '' @
                               [CHR 0x27] @ ''agent_scenarios'' @ [CHR 0x27] @
                               ''. See FIRESTORE_RULES_FIX.md for instructions.'')
               else err] \<and>
          snd (scenarios_on_error onError err)
            = f (if err_code err = Some ''permission-denied''
                 then new_Error (''Permission denied: Check Firestore security rules for collection '' @
                                 [CHR 0x27] @ ''agent_scenarios'' @ [CHR 0x27] @
                                 ''. See FIRESTORE_RULES_FIX.md for instructions.'')
                 else err))"
    by (simp add: scenarios_on_error_def call_onError_def permission_denied_message_def Let_def
          split: option.splits)
  show ?thesis
    unfolding Let_def
    by (rule conjI, rule subscription, rule conjI, rule handler,
        rule conjI, rule wrappers(1), rule conjI, rule wrappers(2),
        rule conjI, rule wrappers(3), rule conjI, rule wrappers(4),
        rule conjI, rule scenarios, rule scenarios_handler)
qed

text \<open>
  The amended claim at the COA reports: a setup that fails with an \<^verbatim>\<open>onError\<close> that
  returns, a setup that succeeds, and a \<^verbatim>\<open>permission-denied\<close> subscription error.
\<close>

theorem listeners_throw_only_from_onError_witness:
  "snd (listenToCOAReports no_conv (failing_sdk unavailable) quiet_callback (Some quiet_onError) None)
     = Inr NoOp \<and>
   onError_calls
     (fst (listenToCOAReports no_conv (failing_sdk unavailable) quiet_callback (Some quiet_onError) None))
     = [unavailable] \<and>
   logged_errors
     (fst (listenToCOAReports no_conv (failing_sdk unavailable) quiet_callback (Some quiet_onError) None))
     = [unavailable] \<and>
   snd (listenToCOAReports no_conv subscribing_sdk quiet_callback (Some quiet_onError) None)
     = Inr (SdkUnsubscribe 7) \<and>
   map err_message
     (onError_calls (fst (collection_on_error ''agent_coa_reports'' (Some quiet_onError) permission_denied)))
     = [''Permission denied: Check Firestore security rules for collection '' @ [CHR 0x27] @
        ''agent_coa_reports'' @ [CHR 0x27] @ ''. See FIRESTORE_RULES_FIX.md for instructions.'']"
proof -
  note failing = listeners_throw_only_from_onError
              [where collectionName = "''agent_coa_reports''" and limitCount = "Some 20"
                 and conv = no_conv and callback = quiet_callback
                 and onError = "Some quiet_onError" and onSnapshot = "failing_sdk unavailable"
                 and err = permission_denied, unfolded Let_def]
  note subscribing = listeners_throw_only_from_onError
              [where collectionName = "''agent_coa_reports''" and limitCount = "Some 20"
                 and conv = no_conv and callback = quiet_callback
                 and onError = "Some quiet_onError" and onSnapshot = subscribing_sdk
                 and err = permission_denied, unfolded Let_def]
  note wrapper = listeners_throw_only_from_onError
              [where limitCount = None and conv = no_conv and callback = quiet_callback
                 and onError = "Some quiet_onError", unfolded Let_def,
               THEN conjunct2, THEN conjunct2, THEN conjunct2, THEN conjunct2, THEN conjunct1]
  have f: "failing_sdk unavailable q obs = Inl unavailable" for q obs
    by (simp add: failing_sdk_def)
  have s: "subscribing_sdk q obs = Inr 7" for q obs
    by (simp add: subscribing_sdk_def)
  have p: "err_code permission_denied = Some ''permission-denied''"
    by (simp add: permission_denied_def)
  have q: "quiet_onError e = None" for e
    by (simp add: quiet_onError_def)
  have a: "listenToCOAReports no_conv sdk quiet_callback (Some quiet_onError) None
             = listenToCollection no_conv sdk ''agent_coa_reports''
                 quiet_callback (Some quiet_onError) (Some 20)" for sdk
    using wrapper [of sdk] by simp
  from failing [THEN conjunct1, THEN conjunct2, rule_format, OF f] have 1:
    "snd (listenToCollection no_conv (failing_sdk unavailable) ''agent_coa_reports''
            quiet_callback (Some quiet_onError) (Some 20)) = Inr NoOp"
    "onError_calls (fst (listenToCollection no_conv (failing_sdk unavailable) ''agent_coa_reports''
            quiet_callback (Some quiet_onError) (Some 20))) = [unavailable]"
    "logged_errors (fst (listenToCollection no_conv (failing_sdk unavailable) ''agent_coa_reports''
            quiet_callback (Some quiet_onError) (Some 20))) = [unavailable]"
    by (simp_all add: q)
  from subscribing [THEN conjunct1, THEN conjunct1, rule_format, OF s] have 2:
    "snd (listenToCollection no_conv subscribing_sdk ''agent_coa_reports''
            quiet_callback (Some quiet_onError) (Some 20)) = Inr (SdkUnsubscribe 7)"
    by simp
  from failing [THEN conjunct2, THEN conjunct1] have 3:
    "onError_calls (fst (collection_on_error ''agent_coa_reports'' (Some quiet_onError) permission_denied))
       = [new_Error (''Permission denied: Check Firestore security rules for collection '' @ [CHR 0x27] @
                     ''agent_coa_reports'' @ [CHR 0x27] @ ''. See FIRESTORE_RULES_FIX.md for instructions.'')]"
    by (simp add: p)
  from 1 2 show ?thesis
    unfolding a 3 by (simp add: new_Error_def)
qed

text \<open>
  C9 as stated fails. The setup of the listener throws and the caller's \<^verbatim>\<open>onError\<close>, called
  in the catch block, throws in turn: the listener does not return the function that does
  nothing, it throws the error of \<^verbatim>\<open>onError\<close> to its caller.
\<close>

theorem listeners_throw_only_from_onError_counterexample:
  "snd (listenToCollection no_conv (failing_sdk unavailable) ''agent_coa_reports''
          quiet_callback (Some throwing_onError) None)
     = Inl (type_error ''setAlerts is not a function'') \<and>
   snd (listenToCOAReports no_conv (failing_sdk unavailable) quiet_callback (Some throwing_onError) None)
     = Inl (type_error ''setAlerts is not a function'') \<and>
   snd (listenToScenarios no_conv (failing_sdk unavailable) quiet_callback (Some throwing_onError) None)
     = Inl (type_error ''setAlerts is not a function'')"
  by (simp add: listenToCollection_def listenToCOAReports_def listenToScenarios_def default_20_def
        failing_sdk_def throwing_onError_def call_onError_def Let_def)

subsection \<open>The exports\<close>

lemma set_sortedDocs: "set (sortedDocs env documents) = set documents"
  by (simp add: sortedDocs_def set_js_sort)

lemma sortedDocs_sorted:
  "\<forall>d\<in>set documents. getDate env d \<noteq> None \<Longrightarrow>
   sorted_wrt (\<lambda>a b. not_before (getDate env a) (getDate env b)) (sortedDocs env documents)"
  unfolding sortedDocs_def by (rule sorted_js_sort_valid)

lemma sortedDocs_latest:
  assumes "sortedDocs env documents = latest # rest"
      and "\<forall>d\<in>set documents. getDate env d \<noteq> None"
  shows "latest \<in> set documents"
    and "\<forall>d\<in>set documents. not_before (getDate env latest) (getDate env d)"
proof -
  from assms(1) set_sortedDocs [of env documents]
  have s: "set documents = insert latest (set rest)" by simp
  then show l: "latest \<in> set documents" by simp
  from sortedDocs_sorted [OF assms(2)] assms(1)
  have "\<forall>d\<in>set rest. not_before (getDate env latest) (getDate env d)" by simp
  moreover from l assms(2) have "not_before (getDate env latest) (getDate env latest)"
    by (auto simp: not_before_def)
  ultimately show "\<forall>d\<in>set documents. not_before (getDate env latest) (getDate env d)"
    using s by simp
qed

lemma find_first_of_sorted:
  assumes "sorted_wrt R xs" and "find P xs = Some x"
  shows "P x \<and> x \<in> set xs \<and> (\<forall>y\<in>set xs. P y \<longrightarrow> y = x \<or> R x y)"
  using assms by (induction xs) (auto split: if_splits)

lemma elements_not_array: "\<not> isArray v \<Longrightarrow> elements v = []"
  by (cases v) auto

lemma hasStudentStandards_pure:
  "list_all (\<lambda>sr. \<not> nullish sr) reports \<Longrightarrow>
   hasStudentStandards reports = Inr (\<not> list_all lacks_scores reports)"
  unfolding hasStudentStandards_def
  by (simp add: some_err_reading has_scores_def lacks_scores_def list_all_iff list_ex_iff)

lemma hasData_pure:
  assumes "\<forall>sr\<in>set (elements (field (data d) ''student_reports'')). \<not> nullish sr"
  shows "hasData d = Inr (with_scores d)"
proof (cases "isArray (field (data d) ''student_reports'')")
  case True
  from assms have "list_all (\<lambda>sr. \<not> nullish sr) (elements (field (data d) ''student_reports''))"
    by (simp add: list_all_iff)
  from hasStudentStandards_pure [OF this] True show ?thesis
    by (simp add: hasData_def with_scores_def lacks_scores_def list_all_iff list_ex_iff)
next
  case False
  then show ?thesis
    by (simp add: hasData_def with_scores_def elements_not_array)
qed

lemma documentToUse_pure:
  assumes "\<forall>d\<in>set sortedList. \<forall>sr\<in>set (elements (field (data d) ''student_reports'')). \<not> nullish sr"
      and "latest \<in> set sortedList"
  shows "documentToUse sortedList latest =
           Inr (if nonempty_array (field (data latest) ''student_reports'') \<and>
                   list_all lacks_scores (elements (field (data latest) ''student_reports''))
                then (case find with_scores sortedList of Some d \<Rightarrow> d | None \<Rightarrow> latest)
                else latest)"
proof -
  from assms have "list_all (\<lambda>sr. \<not> nullish sr) (elements (field (data latest) ''student_reports''))"
    by (simp add: list_all_iff)
  from hasStudentStandards_pure [OF this]
  have h: "hasStudentStandards (elements (field (data latest) ''student_reports''))
             = Inr (\<not> list_all lacks_scores (elements (field (data latest) ''student_reports'')))" .
  have f: "find_err hasData sortedList = Inr (find with_scores sortedList)"
    by (rule find_err_pure) (simp add: hasData_pure assms(1))
  show ?thesis
    by (simp add: documentToUse_def Let_def h f bind_err_def)
qed

lemma log_first_report_ok:
  "\<forall>sr\<in>set (elements reports). \<not> nullish sr \<Longrightarrow> log_first_report reports = Inr ()"
  by (cases "elements reports") (auto simp: log_first_report_def)

lemma exportCOA_nonempty:
  assumes "documents \<noteq> []"
  shows "\<exists>latest rest. sortedDocs env documents = latest # rest \<and>
           exportCOAReportsToExcel env documents =
             outcome_of
               (bind_err (addWorksheet env [] (Str ''Summary'')) (\<lambda>summarySheet.
                  bind_err (log_first_report (field (data latest) ''student_reports'')) (\<lambda>logged.
                    bind_err (documentToUse (latest # rest) latest) (\<lambda>d.
                      write_COA_workbook env summarySheet d))))"
proof -
  from assms obtain latest rest where "sortedDocs env documents = latest # rest"
    unfolding sortedDocs_def using js_sort_nonempty by blast
  with assms show ?thesis
    by (simp add: exportCOAReportsToExcel_def)
qed

lemma exportCOA_selected:
  assumes "documents \<noteq> []"
      and "\<forall>d\<in>set documents. \<forall>sr\<in>set (elements (field (data d) ''student_reports'')). \<not> nullish sr"
  shows "\<exists>latest rest.
           sortedDocs env documents = latest # rest \<and>
           documentToUse (latest # rest) latest =
             Inr (if nonempty_array (field (data latest) ''student_reports'') \<and>
                     list_all lacks_scores (elements (field (data latest) ''student_reports''))
                  then (case find with_scores (latest # rest) of Some d \<Rightarrow> d | None \<Rightarrow> latest)
                  else latest) \<and>
           exportCOAReportsToExcel env documents =
             outcome_of
               (bind_err (addWorksheet env [] (Str ''Summary'')) (\<lambda>summarySheet.
                  write_COA_workbook env summarySheet
                    (if nonempty_array (field (data latest) ''student_reports'') \<and>
                        list_all lacks_scores (elements (field (data latest) ''student_reports''))
                     then (case find with_scores (latest # rest) of Some d \<Rightarrow> d | None \<Rightarrow> latest)
                     else latest)))"
proof -
  from exportCOA_nonempty [OF assms(1), of env] obtain latest rest where
    s: "sortedDocs env documents = latest # rest" and
    e: "exportCOAReportsToExcel env documents =
          outcome_of
            (bind_err (addWorksheet env [] (Str ''Summary'')) (\<lambda>summarySheet.
               bind_err (log_first_report (field (data latest) ''student_reports'')) (\<lambda>logged.
                 bind_err (documentToUse (latest # rest) latest) (\<lambda>d.
                   write_COA_workbook env summarySheet d))))"
    by blast
  have set_eq: "set (latest # rest) = set documents"
    using set_sortedDocs [of env documents] s by simp
  then have r: "\<forall>d\<in>set (latest # rest).
                  \<forall>sr\<in>set (elements (field (data d) ''student_reports'')). \<not> nullish sr"
    using assms(2) by simp
  have l: "log_first_report (field (data latest) ''student_reports'') = Inr ()"
    by (rule log_first_report_ok) (use r in simp)
  have d: "documentToUse (latest # rest) latest =
             Inr (if nonempty_array (field (data latest) ''student_reports'') \<and>
                     list_all lacks_scores (elements (field (data latest) ''student_reports''))
                  then (case find with_scores (latest # rest) of Some d \<Rightarrow> d | None \<Rightarrow> latest)
                  else latest)"
    by (rule documentToUse_pure [OF r]) simp
  show ?thesis
    by (rule exI [of _ latest], rule exI [of _ rest])
       (simp only: s d e l bind_err_def sum.case simp_thms)
qed

text \<open>
  C5, as amended. The input is not empty, the creation date of every document is valid and
  no entry of a \<^verbatim>\<open>student_reports\<close> array is \<^verbatim>\<open>null\<close>. Then the export chooses a document
  \<open>chosen\<close> of the input and goes on with it. With \<open>latest\<close> a document of the newest
  creation date: when the \<^verbatim>\<open>student_reports\<close> of \<open>latest\<close> is a non-empty array, every
  entry of it lacks standard scores and some document of the input has scores, \<open>chosen\<close>
  has scores and is the newest of the documents that have; in every other case \<open>chosen\<close> is
  \<open>latest\<close>. The creation date of a document is the time of its \<^verbatim>\<open>createdAt\<close>; without a
  \<^verbatim>\<open>createdAt\<close> it is the time of a Firestore timestamp in \<^verbatim>\<open>data.created_at\<close>, and 0
  when that field holds no truthy value.
\<close>

theorem exportCOA_document_selection:
  assumes "documents \<noteq> []"
      and "\<forall>d\<in>set documents. getDate env d \<noteq> None"
      and "\<forall>d\<in>set documents. \<forall>sr\<in>set (elements (field (data d) ''student_reports'')). \<not> nullish sr"
  shows "(\<exists>latest chosen.
           documentToUse (sortedDocs env documents) latest = Inr chosen \<and>
           exportCOAReportsToExcel env documents =
             outcome_of (bind_err (addWorksheet env [] (Str ''Summary''))
                           (\<lambda>summarySheet. write_COA_workbook env summarySheet chosen)) \<and>
           latest \<in> set documents \<and>
           (\<forall>d\<in>set documents. not_before (getDate env latest) (getDate env d)) \<and>
           chosen \<in> set documents \<and>
           (if nonempty_array (field (data latest) ''student_reports'') \<and>
               list_all lacks_scores (elements (field (data latest) ''student_reports'')) \<and>
               (\<exists>d\<in>set documents. with_scores d)
            then with_scores chosen \<and>
                 (\<forall>d\<in>set documents. with_scores d \<longrightarrow> not_before (getDate env chosen) (getDate env d))
            else chosen = latest)) \<and>
         (\<forall>dt. createdAt doc = Some dt \<longrightarrow> getDate env doc = getTime dt) \<and>
         (\<forall>t. createdAt doc = None \<and> field (data doc) ''created_at'' = Timestamp t \<longrightarrow>
              getDate env doc = Some t) \<and>
         (createdAt doc = None \<and> \<not> truthy (field (data doc) ''created_at'') \<longrightarrow>
              getDate env doc = Some 0)"
proof -
  let ?search = "\<lambda>latest. nonempty_array (field (data latest) ''student_reports'') \<and>
                   list_all lacks_scores (elements (field (data latest) ''student_reports''))"
  from exportCOA_selected [OF assms(1,3), of env] obtain latest rest where
    s: "sortedDocs env documents = latest # rest" and
    d: "documentToUse (latest # rest) latest =
          Inr (if ?search latest
               then (case find with_scores (latest # rest) of Some d \<Rightarrow> d | None \<Rightarrow> latest)
               else latest)" and
    e: "exportCOAReportsToExcel env documents =
          outcome_of
            (bind_err (addWorksheet env [] (Str ''Summary'')) (\<lambda>summarySheet.
               write_COA_workbook env summarySheet
                 (if ?search latest
                  then (case find with_scores (latest # rest) of Some d \<Rightarrow> d | None \<Rightarrow> latest)
                  else latest)))"
    by blast
  let ?chosen = "if ?search latest
                 then (case find with_scores (latest # rest) of Some d \<Rightarrow> d | None \<Rightarrow> latest)
                 else latest"
  note l = sortedDocs_latest [OF s assms(2)]
  have sorted: "sorted_wrt (\<lambda>a b. not_before (getDate env a) (getDate env b)) (latest # rest)"
    using sortedDocs_sorted [OF assms(2)] s by simp
  have set_eq: "set (latest # rest) = set documents"
    using set_sortedDocs [of env documents] s by simp
  have valid: "not_before (getDate env x) (getDate env x)" if "x \<in> set documents" for x
    using assms(2) that by (auto simp: not_before_def)
  have sel: "?chosen \<in> set documents \<and>
        (if ?search latest \<and> (\<exists>d\<in>set documents. with_scores d)
         then with_scores ?chosen \<and>
              (\<forall>d\<in>set documents. with_scores d \<longrightarrow> not_before (getDate env ?chosen) (getDate env d))
         else ?chosen = latest)"
  proof (cases "?search latest \<and> (\<exists>d\<in>set documents. with_scores d)")
    case False
    have "?chosen = latest"
    proof (cases "?search latest")
      case True
      with False have "\<forall>d\<in>set (latest # rest). \<not> with_scores d"
        using set_eq by blast
      then have "find with_scores (latest # rest) = None"
        by (simp only: find_None_iff) blast
      then show ?thesis by simp
    next
      case False
      show ?thesis by (simp only: False if_False)
    qed
    with False l(1) show ?thesis by auto
  next
    case True
    then obtain d' where "d' \<in> set (latest # rest)" "with_scores d'"
      using set_eq by blast
    then have "find with_scores (latest # rest) \<noteq> None"
      by (simp only: find_None_iff) blast
    then obtain x where f: "find with_scores (latest # rest) = Some x"
      by blast
    with True have c: "?chosen = x"
      by simp
    from find_first_of_sorted [OF sorted f]
    have x: "with_scores x" "x \<in> set documents"
         "\<forall>y\<in>set documents. with_scores y \<longrightarrow> y = x \<or> not_before (getDate env x) (getDate env y)"
      using set_eq by auto
    from x(2,3) valid have "\<forall>y\<in>set documents. with_scores y \<longrightarrow> not_before (getDate env x) (getDate env y)"
      by blast
    with True x(1,2) show ?thesis
      unfolding c by simp
  qed
  have selection: "\<exists>latest chosen.
           documentToUse (sortedDocs env documents) latest = Inr chosen \<and>
           exportCOAReportsToExcel env documents =
             outcome_of (bind_err (addWorksheet env [] (Str ''Summary''))
                           (\<lambda>summarySheet. write_COA_workbook env summarySheet chosen)) \<and>
           latest \<in> set documents \<and>
           (\<forall>d\<in>set documents. not_before (getDate env latest) (getDate env d)) \<and>
           chosen \<in> set documents \<and>
           (if nonempty_array (field (data latest) ''student_reports'') \<and>
               list_all lacks_scores (elements (field (data latest) ''student_reports'')) \<and>
               (\<exists>d\<in>set documents. with_scores d)
            then with_scores chosen \<and>
                 (\<forall>d\<in>set documents. with_scores d \<longrightarrow> not_before (getDate env chosen) (getDate env d))
            else chosen = latest)"
    apply (rule exI [of _ latest], rule exI [of _ ?chosen])
    apply (intro conjI)
         apply (simp only: s d)
        apply (rule e)
       apply (rule l(1))
      apply (rule l(2))
     apply (rule sel [THEN conjunct1])
    apply (use sel [THEN conjunct2] in \<open>simp only: conj_assoc\<close>)
    done
  have dates:
    "(\<forall>dt. createdAt doc = Some dt \<longrightarrow> getDate env doc = getTime dt) \<and>
     (\<forall>t. createdAt doc = None \<and> field (data doc) ''created_at'' = Timestamp t \<longrightarrow>
          getDate env doc = Some t) \<and>
     (createdAt doc = None \<and> \<not> truthy (field (data doc) ''created_at'') \<longrightarrow>
          getDate env doc = Some 0)"
    by (simp add: getDate_def js_or_def Let_def)
  from selection dates show ?thesis
    by (rule conjI)
qed

lemma example_with_scores:
  "with_scores report_with_scores" "\<not> with_scores report_without_scores"
  "\<not> with_scores report_empty"
  by (simp_all add: with_scores_def nonempty_array_def field_def
        report_with_scores_def report_without_scores_def report_empty_def)

lemma example_getDate:
  "getDate env report_with_scores = Some 10" "getDate env report_without_scores = Some 20"
  "getDate env report_empty = Some 30"
  by (simp_all add: getDate_def report_with_scores_def report_without_scores_def report_empty_def)

text \<open>
  The amended claim at two reports: the newer one has a student without scores, and the
  older one, which has scores, is chosen and exported.
\<close>

theorem exportCOA_document_selection_witness:
  "(\<exists>latest. documentToUse
               (sortedDocs example_export_env [report_with_scores, report_without_scores]) latest
             = Inr report_with_scores) \<and>
   exportCOAReportsToExcel example_export_env [report_with_scores, report_without_scores] =
     outcome_of (bind_err (addWorksheet example_export_env [] (Str ''Summary''))
                   (\<lambda>summarySheet. write_COA_workbook example_export_env summarySheet
                                     report_with_scores))"
proof -
  let ?docs = "[report_with_scores, report_without_scores]"
  have ne: "?docs \<noteq> []" by simp
  have valid: "\<forall>d\<in>set ?docs. getDate example_export_env d \<noteq> None"
    by (simp add: example_getDate)
  have readable: "\<forall>d\<in>set ?docs.
                    \<forall>sr\<in>set (elements (field (data d) ''student_reports'')). \<not> nullish sr"
    by (simp add: report_with_scores_def report_without_scores_def field_def nullish_def)
  from exportCOA_document_selection [OF ne valid readable, THEN conjunct1]
  obtain latest chosen where
    u: "documentToUse (sortedDocs example_export_env ?docs) latest = Inr chosen" and
    e: "exportCOAReportsToExcel example_export_env ?docs =
          outcome_of (bind_err (addWorksheet example_export_env [] (Str ''Summary''))
                        (\<lambda>summarySheet. write_COA_workbook example_export_env summarySheet chosen))" and
    l: "latest \<in> set ?docs" and
    m: "\<forall>d\<in>set ?docs. not_before (getDate example_export_env latest) (getDate example_export_env d)" and
    c: "chosen \<in> set ?docs" and
    i: "if nonempty_array (field (data latest) ''student_reports'') \<and>
           list_all lacks_scores (elements (field (data latest) ''student_reports'')) \<and>
           (\<exists>d\<in>set ?docs. with_scores d)
        then with_scores chosen \<and>
             (\<forall>d\<in>set ?docs. with_scores d \<longrightarrow>
                  not_before (getDate example_export_env chosen) (getDate example_export_env d))
        else chosen = latest"
    by blast
  from l m have latest: "latest = report_without_scores"
    by (auto simp: example_getDate not_before_def)
  have "nonempty_array (field (data report_without_scores) ''student_reports'') \<and>
        list_all lacks_scores (elements (field (data report_without_scores) ''student_reports''))"
    by (simp add: report_without_scores_def field_def nonempty_array_def lacks_scores_def)
  with i latest have "with_scores chosen"
    using example_with_scores(1) by auto
  with c have "chosen = report_with_scores"
    using example_with_scores(2) by auto
  with u e show ?thesis
    by blast
qed

text \<open>
  C5 as stated fails. The newest report has an empty \<^verbatim>\<open>student_reports\<close> array: every entry
  of it lacks scores and an older report has scores, but the search is not started and the
  newest report is exported, in a workbook that has no sheet of a student.
\<close>

theorem exportCOA_document_selection_counterexample:
  "sortedDocs example_export_env [report_with_scores, report_empty]
     = [report_empty, report_with_scores] \<and>
   documentToUse [report_empty, report_with_scores] report_empty = Inr report_empty \<and>
   claimed_documentToUse [report_empty, report_with_scores] report_empty = report_with_scores \<and>
   doc_id report_empty \<noteq> doc_id report_with_scores \<and>
   (\<exists>wb. exportCOAReportsToExcel example_export_env [report_with_scores, report_empty]
            = Downloaded ''COA_Reports_2025-01-02T03-04-05.xlsx'' wb \<and>
          map sheet_name (worksheets wb) = [Str ''Summary''])"
proof -
  have s: "sortedDocs example_export_env [report_with_scores, report_empty]
             = [report_empty, report_with_scores]"
    by (simp add: sortedDocs_def js_sort_def example_getDate follows_def)
  have d: "documentToUse [report_empty, report_with_scores] report_empty = Inr report_empty"
    by (simp add: documentToUse_def report_empty_def field_def nonempty_array_def)
  have c: "claimed_documentToUse [report_empty, report_with_scores] report_empty
             = report_with_scores"
    using example_with_scores
    by (simp add: claimed_documentToUse_def) (simp add: report_empty_def field_def)
  have i: "doc_id report_empty \<noteq> doc_id report_with_scores"
    by (simp add: report_empty_def report_with_scores_def)
  have a: "addWorksheet example_export_env [] (Str ''Summary'')
             = Inr \<lparr>sheet_name = Str ''Summary'', sheet_rows = []\<rparr>"
    by (simp add: addWorksheet_def example_export_env_def strict_addWorksheet_def illegal_char_def)
  have l: "log_first_report (field (data report_empty) ''student_reports'') = Inr ()"
    by (simp add: log_first_report_def report_empty_def field_def)
  have w: "write_COA_workbook example_export_env \<lparr>sheet_name = Str ''Summary'', sheet_rows = []\<rparr>
             report_empty
           = Inr (''COA_Reports_2025-01-02T03-04-05.xlsx'',
                  \<lparr>creator = ''PrecepGo'',
                   worksheets = [\<lparr>sheet_name = Str ''Summary'',
                                  sheet_rows = summary_rows example_export_env report_empty\<rparr>]\<rparr>)"
    by (simp add: write_COA_workbook_def addStudentSheets_def addAggregateSheet_def
          aggregateScoresData_def write_file_def file_timestamp_def bind_err_def Let_def
          report_empty_def field_def example_export_env_def always_written_def)
  have "exportCOAReportsToExcel example_export_env [report_with_scores, report_empty]
          = Downloaded ''COA_Reports_2025-01-02T03-04-05.xlsx''
              \<lparr>creator = ''PrecepGo'',
               worksheets = [\<lparr>sheet_name = Str ''Summary'',
                              sheet_rows = summary_rows example_export_env report_empty\<rparr>]\<rparr>"
    by (simp add: exportCOAReportsToExcel_def s a l d w bind_err_def outcome_of_def)
  with s d c i show ?thesis by simp
qed


























lemma sortedDocs_single: "sortedDocs env [d] = [d]"
  by (simp add: sortedDocs_def js_sort_def)



lemma example_generic_download:
  "is_download (exportToExcel example_export_env [report_empty] ''agent_sites'')"
  by (simp add: exportToExcel_def addWorksheet_def write_file_def bind_err_def outcome_of_def
        example_export_env_def strict_addWorksheet_def illegal_char_def always_written_def
        Let_def)

lemma example_addWorksheet:
  "addWorksheet example_export_env [] (Str ''Summary'')
     = Inr \<lparr>sheet_name = Str ''Summary'', sheet_rows = []\<rparr>"
  "addWorksheet example_export_env [\<lparr>sheet_name = Str ''Summary'', sheet_rows = rows1\<rparr>] (Str ''Sites'')
     = Inr \<lparr>sheet_name = Str ''Sites'', sheet_rows = []\<rparr>"
  "addWorksheet example_export_env
     [\<lparr>sheet_name = Str ''Summary'', sheet_rows = rows1\<rparr>,
      \<lparr>sheet_name = Str ''Sites'', sheet_rows = rows2\<rparr>] (Str ''Preceptors'')
     = Inr \<lparr>sheet_name = Str ''Preceptors'', sheet_rows = []\<rparr>"
  by (simp_all add: addWorksheet_def example_export_env_def strict_addWorksheet_def illegal_char_def)

lemma example_site_download:
  "is_download (exportSiteReportsToExcel example_export_env [report_empty])"
proof -
  have s: "js_sort cmp [report_empty] = [report_empty]" for cmp
    by (simp add: js_sort_def)
  have r: "\<exists>rows. sites_rows example_export_env (data report_empty) = Inr rows"
          "\<exists>rows. preceptors_rows example_export_env (data report_empty) = Inr rows"
    by (simp_all add: sites_rows_def preceptors_rows_def sites_of_def preceptors_of_def
          analysisData_def js_or_def field_def nonempty_array_def bind_err_def report_empty_def)
  then obtain rows2 rows3 where
    r2: "sites_rows example_export_env (data report_empty) = Inr rows2" and
    r3: "preceptors_rows example_export_env (data report_empty) = Inr rows3"
    by blast
  have w: "library_writeBuffer example_export_env written = None" for written
    by (simp add: example_export_env_def always_written_def)
  show ?thesis
    by (simp add: exportSiteReportsToExcel_def s example_addWorksheet r2 r3 write_file_def w
          bind_err_def outcome_of_def Let_def)
qed

lemma example_COA_download:
  "is_download (exportCOAReportsToExcel example_export_env [report_empty])"
  by (simp add: exportCOAReportsToExcel_def sortedDocs_single log_first_report_def
        documentToUse_def write_COA_workbook_def addStudentSheets_def addAggregateSheet_def
        aggregateScoresData_def addWorksheet_def write_file_def nonempty_array_def
        report_empty_def field_def bind_err_def outcome_of_def Let_def
        example_export_env_def strict_addWorksheet_def illegal_char_def always_written_def)

text \<open>
  C10. Called with no documents, each export shows its alert and ends: no workbook, no
  download. An export that ends with a download was given a document.
\<close>

theorem exports_alert_on_empty_input:
  "exportCOAReportsToExcel env [] = Alerted ''No COA reports to export'' \<and>
   exportSiteReportsToExcel env [] =
     Alerted ''No site reports available to export. Please generate some reports first.'' \<and>
   exportToExcel env [] collectionName = Alerted (''No '' @ collectionName @ '' documents to export'') \<and>
   (is_download (exportCOAReportsToExcel env documents) \<longrightarrow> documents \<noteq> []) \<and>
   (is_download (exportSiteReportsToExcel env documents) \<longrightarrow> documents \<noteq> []) \<and>
   (is_download (exportToExcel env documents collectionName) \<longrightarrow> documents \<noteq> [])"
  by (auto simp: exportCOAReportsToExcel_def exportSiteReportsToExcel_def exportToExcel_def)

theorem exports_alert_on_empty_input_witness:
  "is_download (exportCOAReportsToExcel example_export_env [report_empty]) \<and>
   is_download (exportSiteReportsToExcel example_export_env [report_empty]) \<and>
   is_download (exportToExcel example_export_env [report_empty] ''agent_sites'') \<and>
   [report_empty] \<noteq> [] \<and>
   exportToExcel example_export_env [] ''agent_sites'' = Alerted ''No agent_sites documents to export'' \<and>
   \<not> is_download (exportCOAReportsToExcel example_export_env []) \<and>
   \<not> is_download (exportSiteReportsToExcel example_export_env []) \<and>
   \<not> is_download (exportToExcel example_export_env [] ''agent_sites'')"
  using exports_alert_on_empty_input [of example_export_env "''agent_sites''" "[report_empty]"]
        example_COA_download example_site_download example_generic_download
  by simp

end
